theory Spec2Isabelle
  imports Main "HOL-Library.Multiset"
begin

section \<open>Strings and characters\<close>

text \<open>
  JavaScript strings are modelled as \<^typ>\<open>string\<close>: every character is one code unit below
  256, which covers the URLs and labels the engine handles.  The character classes below are
  the ones the regular expressions of the repository use.
\<close>

definition code :: "char \<Rightarrow> nat" where
  "code c = of_char c"

definition isDigit :: "char \<Rightarrow> bool" where
  "isDigit c = (48 \<le> code c \<and> code c \<le> 57)"

definition isAlpha :: "char \<Rightarrow> bool" where
  "isAlpha c = ((65 \<le> code c \<and> code c \<le> 90) \<or> (97 \<le> code c \<and> code c \<le> 122))"

definition isWord :: "char \<Rightarrow> bool" where
  \<comment> \<open>\<open>\w\<close>\<close>
  "isWord c = (isDigit c \<or> isAlpha c \<or> c = CHR ''_'')"

definition isSpace :: "char \<Rightarrow> bool" where
  \<comment> \<open>\<open>\s\<close>: tab, line feed, vertical tab, form feed, carriage return, space, no-break space\<close>
  "isSpace c = ((9 \<le> code c \<and> code c \<le> 13) \<or> code c = 32 \<or> code c = 160)"

definition isWordDotDash :: "char \<Rightarrow> bool" where
  \<comment> \<open>\<open>[\w.-]\<close>\<close>
  "isWordDotDash c = (isWord c \<or> c = CHR ''.'' \<or> c = CHR ''-'')"

definition isWordDash :: "char \<Rightarrow> bool" where
  \<comment> \<open>\<open>[\w-]\<close>, which is also \<open>[a-zA-Z0-9_-]\<close> and \<open>[0-9A-Za-z_-]\<close>\<close>
  "isWordDash c = (isWord c \<or> c = CHR ''-'')"

definition startsWith :: "string \<Rightarrow> string \<Rightarrow> bool" where
  "startsWith s p = (take (length p) s = p)"

fun str_includes :: "string \<Rightarrow> string \<Rightarrow> bool" where
  "str_includes [] p = (p = [])"
| "str_includes (c # cs) p = (startsWith (c # cs) p \<or> str_includes cs p)"

definition slice0 :: "string \<Rightarrow> nat \<Rightarrow> string" where
  \<comment> \<open>\<open>s.slice(0, n)\<close>\<close>
  "slice0 s n = take n s"

definition substr :: "string \<Rightarrow> nat \<Rightarrow> nat \<Rightarrow> string" where
  \<comment> \<open>\<open>s.substr(start, len)\<close>\<close>
  "substr s start len = take len (drop start s)"

fun lastSegment :: "string \<Rightarrow> string \<Rightarrow> string" where
  \<comment> \<open>\<open>s.split('.').pop()\<close>, with the segment read so far as accumulator\<close>
  "lastSegment acc [] = acc"
| "lastSegment acc (c # cs) = (if c = CHR ''.'' then lastSegment [] cs else lastSegment (acc @ [c]) cs)"

definition digitChar :: "nat \<Rightarrow> char" where
  "digitChar d = char_of (48 + d)"

fun showNat :: "nat \<Rightarrow> string" where
  \<comment> \<open>the decimal digits of a number, which is how \<open>String\<close> renders a whole number below \<open>10^21\<close>\<close>
  "showNat n = (if n < 10 then [digitChar n] else showNat (n div 10) @ [digitChar (n mod 10)])"

declare showNat.simps [simp del]

definition pad2 :: "nat \<Rightarrow> string" where
  "pad2 n = (if n < 10 then CHR ''0'' # showNat n else showNat n)"

section \<open>Regular expressions\<close>

text \<open>
  The patterns of the repository use literals, character classes, alternation, optional
  groups and repetition of a character class.  \<open>runs r s\<close> lists, in the backtracking order of
  the JavaScript matcher, what is left of \<open>s\<close> after each way of matching \<open>r\<close> at its start.
\<close>

datatype greed = Greedy | Lazy

datatype rx =
    Eps
  | Lit string
  | Cls "char \<Rightarrow> bool"
  | Seq rx rx
  | Alt rx rx
  | Rep greed nat "nat option" "char \<Rightarrow> bool"

fun runs :: "rx \<Rightarrow> string \<Rightarrow> string list" where
  "runs Eps s = [s]"
| "runs (Lit l) s = (if startsWith s l then [drop (length l) s] else [])"
| "runs (Cls P) s = (case s of [] \<Rightarrow> [] | c # cs \<Rightarrow> if P c then [cs] else [])"
| "runs (Seq a b) s = concat (map (runs b) (runs a s))"
| "runs (Alt a b) s = runs a s @ runs b s"
| "runs (Rep g lo hi P) s =
     (let n = length (takeWhile P s);
          top = (case hi of None \<Rightarrow> n | Some h \<Rightarrow> min h n);
          ks = [lo ..< Suc top]
      in map (\<lambda>k. drop k s) (case g of Greedy \<Rightarrow> rev ks | Lazy \<Rightarrow> ks))"

definition Opt :: "rx \<Rightarrow> rx" where
  \<comment> \<open>\<open>(?:r)?\<close>: the group first, then nothing\<close>
  "Opt r = Alt r Eps"

fun Seqs :: "rx list \<Rightarrow> rx" where
  "Seqs [] = Eps"
| "Seqs [r] = r"
| "Seqs (r # rs) = Seq r (Seqs rs)"

fun Alts :: "rx list \<Rightarrow> rx" where
  "Alts [] = Eps"
| "Alts [r] = r"
| "Alts (r # rs) = Alt r (Alts rs)"

definition Plus :: "(char \<Rightarrow> bool) \<Rightarrow> rx" where
  "Plus P = Rep Greedy 1 None P"

fun suffixes_of :: "string \<Rightarrow> string list" where
  "suffixes_of [] = [[]]"
| "suffixes_of (c # cs) = (c # cs) # suffixes_of cs"

definition test :: "rx \<Rightarrow> string \<Rightarrow> bool" where
  \<comment> \<open>\<open>regex.test(s)\<close> for a pattern without flags: a match at some start position\<close>
  "test r s = list_ex (\<lambda>t. runs r t \<noteq> []) (suffixes_of s)"

fun firstGroup :: "rx \<Rightarrow> rx \<Rightarrow> string list \<Rightarrow> string option" where
  \<comment> \<open>the first way, in backtracking order, to continue one of the remainders with the group\<close>
  "firstGroup grp rest [] = None"
| "firstGroup grp rest (t # ts) =
     (case concat (map (\<lambda>u. if runs rest u = [] then [] else [u]) (runs grp t)) of
        [] \<Rightarrow> firstGroup grp rest ts
      | u # _ \<Rightarrow> Some (take (length t - length u) t))"

fun matchFrom :: "rx \<Rightarrow> rx \<Rightarrow> rx \<Rightarrow> string list \<Rightarrow> string option" where
  "matchFrom pre grp rest [] = None"
| "matchFrom pre grp rest (s # ss) =
     (case firstGroup grp rest (runs pre s) of
        None \<Rightarrow> matchFrom pre grp rest ss
      | Some g \<Rightarrow> Some g)"

definition match1 :: "rx \<Rightarrow> rx \<Rightarrow> rx \<Rightarrow> string \<Rightarrow> string option" where
  \<comment> \<open>\<open>s.match(/pre(grp)rest/)\<close>: capture group 1 of the leftmost match, if any\<close>
  "match1 pre grp rest s = matchFrom pre grp rest (suffixes_of s)"

definition replacePrefix :: "rx \<Rightarrow> string \<Rightarrow> string \<Rightarrow> string" where
  \<comment> \<open>\<open>s.replace(/^r/, by)\<close> for a replacement text without \<open>$\<close>\<close>
  "replacePrefix r by s = (case runs r s of [] \<Rightarrow> s | t # _ \<Rightarrow> by @ t)"

section \<open>Data model (types.ts)\<close>

datatype PlatformName = YouTube | TikTok | Instagram | Twitter | Facebook | LinkedIn | Pinterest

text \<open>The icon of a platform is a rendered element of the presentation layer and is left out.\<close>

record Platform =
  name :: PlatformName
  color :: string
  regex :: rx

text \<open>
  The fields are typed \<open>string\<close> in the source, but a resolver copies upstream fields that may
  be absent; those are options here.  \<open>dl_url\<close> and \<open>dl_size\<close> are the fields \<open>url\<close> and \<open>size\<close> of
  a download option.
\<close>

record DownloadOption =
  quality :: string
  format :: string
  dl_url :: "string option"
  dl_size :: "string option"

record MediaInfo =
  title :: "string option"
  thumbnail :: "string option"
  duration :: "string option"
  author :: "string option"
  platform :: PlatformName
  url :: "string option"
  description :: "string option"
  downloadOptions :: "DownloadOption list"

fun platformText :: "PlatformName \<Rightarrow> string" where
  "platformText YouTube = ''YouTube''"
| "platformText TikTok = ''TikTok''"
| "platformText Instagram = ''Instagram''"
| "platformText Twitter = ''Twitter''"
| "platformText Facebook = ''Facebook''"
| "platformText LinkedIn = ''LinkedIn''"
| "platformText Pinterest = ''Pinterest''"

section \<open>Platform table (constants.tsx) and detector (utils/platform.ts)\<close>

definition scheme :: rx where
  \<comment> \<open>\<open>(?:https?:\/\/)?\<close>\<close>
  "scheme = Opt (Seqs [Lit ''http'', Opt (Lit ''s''), Lit ''://''])"

definition www :: rx where
  \<comment> \<open>\<open>(?:www\.)?\<close>\<close>
  "www = Opt (Lit ''www.'')"

definition PLATFORMS :: "(PlatformName \<times> Platform) list" where
  "PLATFORMS =
   [(YouTube, \<lparr>name = YouTube, color = ''#FF0000'',
       regex = Seqs [scheme, www, Alt (Lit ''youtube.com'') (Lit ''youtu.be''), Lit ''/'',
                     Opt (Lit ''watch?v=''), Opt (Lit ''embed/''), Opt (Lit ''v/''),
                     Plus (\<lambda>c. \<not> isSpace c)]\<rparr>),
    (TikTok, \<lparr>name = TikTok, color = ''#000000'',
       regex = Seqs [scheme, www, Lit ''tiktok.com/'',
                     Alts [Seqs [Lit ''@'', Plus isWordDotDash, Lit ''/video/''],
                           Lit ''v/'', Lit ''embed/'', Eps],
                     Plus isDigit]\<rparr>),
    (Instagram, \<lparr>name = Instagram, color = ''#E4405F'',
       regex = Seqs [scheme, www, Lit ''instagram.com/'',
                     Alts [Lit ''p'', Lit ''reel'', Lit ''tv''], Lit ''/'', Plus isWordDash]\<rparr>),
    (Twitter, \<lparr>name = Twitter, color = ''#1DA1F2'',
       regex = Seqs [scheme, www, Alt (Lit ''twitter.com'') (Lit ''x.com''), Lit ''/'',
                     Plus isWord, Lit ''/status/'', Plus isDigit]\<rparr>),
    (Facebook, \<lparr>name = Facebook, color = ''#1877F2'',
       regex = Seqs [scheme, www, Lit ''facebook.com/'',
                     Alts [Seqs [Lit ''watch'', Opt (Lit ''/''), Lit ''?v=''],
                           Lit ''video.php?v='', Eps],
                     Plus isWordDotDash]\<rparr>),
    (LinkedIn, \<lparr>name = LinkedIn, color = ''#0A66C2'',
       regex = Seqs [scheme, www, Lit ''linkedin.com/'',
                     Alts [Lit ''feed/update/urn:li:activity:'',
                           Lit ''embed/feed/update/urn:li:share:'', Lit ''posts/'']]\<rparr>),
    (Pinterest, \<lparr>name = Pinterest, color = ''#E60023'',
       regex = Seqs [scheme, www, Lit ''pinterest.'',
                     Alts [Lit ''com'', Lit ''ca'', Lit ''co.uk'', Lit ''fr'', Lit ''de'',
                           Lit ''es'', Lit ''it'', Lit ''jp'', Lit ''com.au''],
                     Lit ''/pin/'', Plus isDigit]\<rparr>)]"

definition Object_values :: "('k \<times> 'v) list \<Rightarrow> 'v list" where
  \<comment> \<open>the values of an object with string keys, in the order the keys were written\<close>
  "Object_values kvs = map snd kvs"

fun firstMatching :: "Platform list \<Rightarrow> string \<Rightarrow> Platform option" where
  \<comment> \<open>the \<open>for\<close> loop of \<open>getPlatform\<close>\<close>
  "firstMatching [] u = None"
| "firstMatching (p # ps) u = (if test (regex p) u then Some p else firstMatching ps u)"

definition getPlatform :: "string \<Rightarrow> Platform option" where
  "getPlatform u = firstMatching (Object_values PLATFORMS) u"

section \<open>Errors and truthiness\<close>

datatype error =
    Error string
  | TypeError string
  | RangeError string
  | SyntaxError string

fun message :: "error \<Rightarrow> string" where
  "message (Error m) = m"
| "message (TypeError m) = m"
| "message (RangeError m) = m"
| "message (SyntaxError m) = m"

definition truthy :: "string option \<Rightarrow> bool" where
  \<comment> \<open>a string field in a condition: absent and empty are false\<close>
  "truthy x = (case x of None \<Rightarrow> False | Some s \<Rightarrow> s \<noteq> [])"

definition truthyN :: "nat option \<Rightarrow> bool" where
  \<comment> \<open>a numeric field in a condition: absent and zero are false\<close>
  "truthyN x = (case x of None \<Rightarrow> False | Some n \<Rightarrow> n \<noteq> 0)"

definition orElse :: "string option \<Rightarrow> string option \<Rightarrow> string option" where
  \<comment> \<open>\<open>a || b\<close>\<close>
  "orElse a b = (if truthy a then a else b)"

definition orText :: "string option \<Rightarrow> string \<Rightarrow> string" where
  \<comment> \<open>\<open>a || 'text'\<close>\<close>
  "orText a d = (case a of None \<Rightarrow> d | Some s \<Rightarrow> if s = [] then d else s)"

definition nullish :: "'a option \<Rightarrow> 'a option \<Rightarrow> 'a option" where
  \<comment> \<open>\<open>a ?? b\<close>\<close>
  "nullish a b = (case a of None \<Rightarrow> b | Some x \<Rightarrow> Some x)"

definition orZero :: "nat option \<Rightarrow> nat" where
  \<comment> \<open>\<open>n || 0\<close> and \<open>n ?? 0\<close> on a numeric field\<close>
  "orZero x = (case x of None \<Rightarrow> 0 | Some n \<Rightarrow> n)"

section \<open>Numbers, sizes and times\<close>

text \<open>
  Numeric upstream fields (byte counts, bit rates, heights, seconds) are natural numbers; below
  \<open>2^53\<close> they are exact as JavaScript numbers.  In a condition such a field is false when it
  is absent or zero.  Where a field is rendered as text (a size, a label), it is rendered from
  the double that JavaScript reads: the number itself below \<open>2^53\<close>, above that the nearest
  number with 53 significant bits, the even one on a tie, and \<open>Infinity\<close> beyond the largest
  double.  Such a number divided twice by 1024 is exact, and \<open>toFixed(f)\<close> picks the integer \<open>n\<close>
  with \<open>n / 10^f\<close> nearest to the value, the larger one on a tie; from \<open>10^21\<close> on it answers as
  \<open>String\<close> does, with the fewest digits that read back as the same number, followed by an
  exponent.  Dates are computed as \<open>Date.prototype.toISOString\<close> does: a time beyond
  8,640,000,000,000,000 ms is a \<open>RangeError\<close>, and a year beyond 9999 is written with a sign
  and six digits.
\<close>

definition padTo :: "nat \<Rightarrow> string \<Rightarrow> string" where
  "padTo w s = replicate (w - length s) (CHR ''0'') @ s"

fun ulp :: "nat \<Rightarrow> nat" where
  \<comment> \<open>the distance between the doubles around \<open>n\<close>: 1 below \<open>2^53\<close>, twice as much with every further bit\<close>
  "ulp n = (if n < 2 ^ 53 then 1 else 2 * ulp (n div 2))"

declare ulp.simps [simp del]

definition nearest :: "nat \<Rightarrow> nat" where
  \<comment> \<open>the multiple of \<open>ulp n\<close> nearest to \<open>n\<close>, the one with the even factor on a tie\<close>
  "nearest n =
     (let u = ulp n; q = n div u; r = n mod u
      in if 2 * r < u \<or> (2 * r = u \<and> even q) then q * u else (q + 1) * u)"

definition toNumber :: "nat \<Rightarrow> nat option" where
  \<comment> \<open>the number that \<open>JSON.parse\<close> and \<open>Number\<close> read from a decimal integer; \<open>None\<close> is \<open>Infinity\<close>\<close>
  "toNumber n = (if nearest n < 2 ^ 1024 then Some (nearest n) else None)"

definition digitsAt :: "nat \<Rightarrow> nat \<Rightarrow> (nat \<times> nat) option" where
  \<comment> \<open>\<open>k\<close> digits \<open>s\<close> and an exponent \<open>e\<close> such that \<open>s * 10^e\<close> reads back as the number \<open>x\<close>, if
      there are any: of the two candidates around \<open>x\<close> the nearer one, the even one on a tie\<close>
  "digitsAt x k =
     (let e = length (showNat x) - k; p = 10 ^ e; lo = x div p; hi = lo + 1;
          a = (toNumber (lo * p) = Some x); b = (toNumber (hi * p) = Some x)
      in if a \<and> b
         then (if x - lo * p < hi * p - x \<or> (x - lo * p = hi * p - x \<and> even lo)
               then Some (lo, e) else Some (hi, e))
         else if a then Some (lo, e) else if b then Some (hi, e) else None)"

definition shortest :: "nat \<Rightarrow> nat \<times> nat" where
  \<comment> \<open>the fewest digits that read back as \<open>x\<close>; 17 digits are enough for every double\<close>
  "shortest x = (case List.map_filter (digitsAt x) [1 ..< 18] of [] \<Rightarrow> (x, 0) | p # ps \<Rightarrow> p)"

fun normal :: "nat \<Rightarrow> nat \<Rightarrow> nat \<times> nat" where
  \<comment> \<open>final zeros of the digits moved into the exponent\<close>
  "normal s e = (if s \<noteq> 0 \<and> s mod 10 = 0 then normal (s div 10) (e + 1) else (s, e))"

declare normal.simps [simp del]

definition toExponent :: "nat \<Rightarrow> string" where
  \<comment> \<open>\<open>String(x)\<close> for a number \<open>x\<close> from \<open>10^21\<close> on, such as \<open>1.1805916207174113e+21\<close>\<close>
  "toExponent x =
     (case shortest x of (s, e) \<Rightarrow>
        case normal s e of (s', e') \<Rightarrow>
          let ds = showNat s'
          in take 1 ds @ (if length ds = 1 then [] else ''.'' @ drop 1 ds)
             @ ''e+'' @ showNat (e' + length ds - 1))"

definition numberText :: "nat \<Rightarrow> string" where
  \<comment> \<open>\<open>String(n)\<close> for a numeric field \<open>n\<close>\<close>
  "numberText n =
     (case toNumber n of
        None \<Rightarrow> ''Infinity''
      | Some x \<Rightarrow> if 10 ^ 21 \<le> x then toExponent x else showNat x)"

definition toFixed :: "nat \<Rightarrow> nat \<Rightarrow> nat \<Rightarrow> string" where
  \<comment> \<open>\<open>x.toFixed(f)\<close> for the number \<open>x = num / den\<close>, which is whole when it reaches \<open>10^21\<close>\<close>
  "toFixed num den f =
     (if 10 ^ 21 * den \<le> num then toExponent (num div den)
      else
        let n = (2 * num * 10 ^ f + den) div (2 * den)
        in if f = 0 then showNat n
           else showNat (n div 10 ^ f) @ ''.'' @ padTo f (showNat (n mod 10 ^ f)))"

definition megabytes :: "nat \<Rightarrow> nat \<Rightarrow> string" where
  \<comment> \<open>\<open>`${(bytes / 1024 / 1024).toFixed(f)} MB`\<close>\<close>
  "megabytes f bytes =
     (case toNumber bytes of
        None \<Rightarrow> ''Infinity''
      | Some x \<Rightarrow> toFixed x (1024 * 1024) f) @ '' MB''"

definition sizeText :: "nat \<Rightarrow> nat option \<Rightarrow> string option" where
  \<comment> \<open>\<open>bytes ? `${(bytes / 1024 / 1024).toFixed(f)} MB` : undefined\<close>\<close>
  "sizeText f bytes = (if truthyN bytes then Some (megabytes f (orZero bytes)) else None)"

definition yearOfEra :: "nat \<Rightarrow> nat" where
  \<comment> \<open>the year within a cycle of 400 years that starts on a first of March\<close>
  "yearOfEra doe = (doe + doe div 36524 - doe div 1460 - doe div 146096) div 365"

definition dayOfYear :: "nat \<Rightarrow> nat \<Rightarrow> nat" where
  "dayOfYear doe yoe = doe + yoe div 100 - (365 * yoe + yoe div 4)"

definition monthIndex :: "nat \<Rightarrow> nat" where
  \<comment> \<open>the month, counted from March as 0\<close>
  "monthIndex doy = (5 * doy + 2) div 153"

definition dayOfMonth :: "nat \<Rightarrow> nat \<Rightarrow> nat" where
  "dayOfMonth doy mp = doy + 1 - (153 * mp + 2) div 5"

definition monthOf :: "nat \<Rightarrow> nat" where
  "monthOf mp = (if mp < 10 then mp + 3 else mp - 9)"

definition civil :: "nat \<Rightarrow> nat \<times> nat \<times> nat" where
  \<comment> \<open>year, month and day of the UTC date \<open>days\<close> after 1970-01-01\<close>
  "civil days =
     (let z = days + 719468;
          doe = z mod 146097;
          yoe = yearOfEra doe;
          doy = dayOfYear doe yoe;
          m = monthOf (monthIndex doy)
      in (yoe + (z div 146097) * 400 + (if m \<le> 2 then 1 else 0), m,
          dayOfMonth doy (monthIndex doy)))"

definition toISOString :: "nat \<Rightarrow> error + string" where
  \<comment> \<open>\<open>new Date(ms).toISOString()\<close> for \<open>ms \<ge> 0\<close>\<close>
  "toISOString ms =
     (if ms > 8640000000000000 then Inl (RangeError ''Invalid time value'')
      else
        let r = ms mod 86400000 in
        case civil (ms div 86400000) of (y, m, d) \<Rightarrow>
          Inr ((if y \<le> 9999 then padTo 4 (showNat y) else CHR ''+'' # padTo 6 (showNat y))
               @ ''-'' @ pad2 m @ ''-'' @ pad2 d @ ''T''
               @ pad2 (r div 3600000) @ '':'' @ pad2 (r div 60000 mod 60) @ '':''
               @ pad2 (r div 1000 mod 60) @ ''.'' @ padTo 3 (showNat (r mod 1000)) @ ''Z''))"

definition clock :: "nat \<Rightarrow> nat \<Rightarrow> nat \<Rightarrow> error + string" where
  \<comment> \<open>\<open>new Date(seconds * 1000).toISOString().substr(start, len)\<close>\<close>
  "clock seconds start len =
     (case toISOString (seconds * 1000) of Inl e \<Rightarrow> Inl e | Inr s \<Rightarrow> Inr (substr s start len))"

fun hexDigit :: "nat \<Rightarrow> char" where
  "hexDigit d = (if d < 10 then char_of (48 + d) else char_of (55 + d))"

definition percent :: "nat \<Rightarrow> string" where
  "percent b = [CHR ''%'', hexDigit (b div 16), hexDigit (b mod 16)]"

definition encodeChar :: "char \<Rightarrow> string" where
  "encodeChar c =
     (if isWord c \<or> c \<in> set ''-.!~*'' \<or> code c = 39 \<or> c = CHR ''('' \<or> c = CHR '')'' then [c]
      else if code c < 128 then percent (code c)
      else percent (192 + code c div 64) @ percent (128 + code c mod 64))"

definition encodeURIComponent :: "string \<Rightarrow> string" where
  "encodeURIComponent s = concat (map encodeChar s)"

fun skipSpace :: "string \<Rightarrow> string" where
  "skipSpace [] = []"
| "skipSpace (c # cs) = (if isSpace c then skipSpace cs else c # cs)"

definition digitValue :: "nat \<Rightarrow> char \<Rightarrow> nat option" where
  \<comment> \<open>the value of a digit of the given radix (10 or 16)\<close>
  "digitValue radix c =
     (if isDigit c then Some (code c - 48)
      else if radix = 16 \<and> 97 \<le> code c \<and> code c \<le> 102 then Some (code c - 87)
      else if radix = 16 \<and> 65 \<le> code c \<and> code c \<le> 70 then Some (code c - 55)
      else None)"

fun digitsValue :: "nat \<Rightarrow> nat option \<Rightarrow> string \<Rightarrow> nat option" where
  \<comment> \<open>the longest prefix of digits, read from the left; \<open>None\<close> when there is no digit\<close>
  "digitsValue radix acc [] = acc"
| "digitsValue radix acc (c # cs) =
     (case digitValue radix c of
        None \<Rightarrow> acc
      | Some d \<Rightarrow> digitsValue radix (Some (radix * orZero acc + d)) cs)"

definition parseMagnitude :: "string \<Rightarrow> nat option" where
  "parseMagnitude s =
     (if startsWith s ''0x'' \<or> startsWith s ''0X'' then digitsValue 16 None (drop 2 s)
      else digitsValue 10 None s)"

definition parseInt :: "string \<Rightarrow> int option" where
  \<comment> \<open>\<open>parseInt(s)\<close> without a radix; \<open>None\<close> is \<open>NaN\<close>\<close>
  "parseInt s =
     (case skipSpace s of
        [] \<Rightarrow> None
      | c # cs \<Rightarrow>
          if c = CHR ''-'' then map_option (\<lambda>n. - int n) (parseMagnitude cs)
          else if c = CHR ''+'' then map_option int (parseMagnitude cs)
          else map_option int (parseMagnitude (c # cs)))"

section \<open>Arrays\<close>

text \<open>
  \<open>Array.prototype.sort\<close> with a comparator is stable; it is modelled by a stable insertion
  sort, which for the consistent comparators of this repository (differences of numeric keys)
  computes the one stable sorted arrangement.
\<close>

fun insertBy :: "('a \<Rightarrow> 'a \<Rightarrow> int) \<Rightarrow> 'a \<Rightarrow> 'a list \<Rightarrow> 'a list" where
  "insertBy cmp x [] = [x]"
| "insertBy cmp x (y # ys) = (if cmp x y \<le> 0 then x # y # ys else y # insertBy cmp x ys)"

definition js_sort :: "('a \<Rightarrow> 'a \<Rightarrow> int) \<Rightarrow> 'a list \<Rightarrow> 'a list" where
  "js_sort cmp xs = foldr (insertBy cmp) xs []"

fun indexFrom :: "int \<Rightarrow> 'a list \<Rightarrow> 'a \<Rightarrow> int" where
  "indexFrom i [] x = - 1"
| "indexFrom i (y # ys) x = (if y = x then i else indexFrom (i + 1) ys x)"

definition indexOf :: "'a list \<Rightarrow> 'a \<Rightarrow> int" where
  \<comment> \<open>\<open>xs.indexOf(x)\<close>: the first position of \<open>x\<close>, or \<open>-1\<close>\<close>
  "indexOf xs x = indexFrom 0 xs x"

definition first :: "'a list \<Rightarrow> 'a option" where
  \<comment> \<open>\<open>xs[0]\<close>, \<open>undefined\<close> on the empty array\<close>
  "first xs = (case xs of [] \<Rightarrow> None | x # _ \<Rightarrow> Some x)"

fun mapSet :: "('k \<times> 'v) list \<Rightarrow> 'k \<Rightarrow> 'v \<Rightarrow> ('k \<times> 'v) list" where
  \<comment> \<open>\<open>Map.prototype.set\<close>: a key that is present keeps its place and takes the new value\<close>
  "mapSet [] k v = [(k, v)]"
| "mapSet ((k', v') # m) k v = (if k' = k then (k, v) # m else (k', v') # mapSet m k v)"

definition newMap :: "('k \<times> 'v) list \<Rightarrow> ('k \<times> 'v) list" where
  \<comment> \<open>\<open>new Map(entries)\<close>: the entries are set one after the other\<close>
  "newMap entries = foldl (\<lambda>m (k, v). mapSet m k v) [] entries"

definition mapValues :: "('k \<times> 'v) list \<Rightarrow> 'v list" where
  \<comment> \<open>\<open>Array.from(map.values())\<close>\<close>
  "mapValues m = map snd m"

section \<open>Network\<close>

text \<open>
  Every upstream service is a function from the request to what \<open>fetch\<close> gives back: a
  rejection (connection error, timeout) or a response with its \<open>ok\<close> flag, status text and
  body.  The body is malformed (\<open>json()\<close> throws), \<open>null\<close>, or an object of the schema of the
  service, every field of which may be absent.  The requests made are recorded in a log.
\<close>

datatype http_method = GET | HEAD

record request =
  http_method :: http_method
  target :: string
  timeout :: "nat option"

datatype 'a body = Malformed | JsonNull | Json 'a

datatype 'a reply = Rejected error | Response bool string "'a body"

type_synonym 'a service = "request \<Rightarrow> 'a reply"

type_synonym log = "request list"

definition json :: "'a body \<Rightarrow> error + 'a option" where
  \<comment> \<open>\<open>await res.json()\<close>\<close>
  "json b = (case b of Malformed \<Rightarrow> Inl (SyntaxError ''Unexpected token in JSON'')
                     | JsonNull \<Rightarrow> Inr None
                     | Json x \<Rightarrow> Inr (Some x))"

definition nullAccess :: error where
  \<comment> \<open>reading a property of \<open>null\<close> or \<open>undefined\<close>\<close>
  "nullAccess = TypeError ''Cannot read properties of undefined''"

definition fetchJson :: "'a service \<Rightarrow> request \<Rightarrow> (string \<Rightarrow> error) \<Rightarrow> error + 'a option" where
  \<comment> \<open>\<open>res = await fetch(..); if (!res.ok) throw ..; json = await res.json()\<close>\<close>
  "fetchJson net rq notOk =
     (case net rq of
        Rejected e \<Rightarrow> Inl e
      | Response ok statusText b \<Rightarrow> if ok then json b else Inl (notOk statusText))"

definition get :: "string \<Rightarrow> request" where
  \<comment> \<open>\<open>fetch(api)\<close>\<close>
  "get api = \<lparr>http_method = GET, target = api, timeout = None\<rparr>"

section \<open>Upstream schemas\<close>

record InvThumb =
  th_quality :: "string option"
  th_url :: "string option"

record InvStream =
  s_type :: "string option"
  s_qualityLabel :: "string option"
  s_height :: "nat option"
  s_url :: "string option"
  s_contentLength :: "nat option"
  s_bitrate :: "nat option"
  s_container :: "string option"
  s_size :: "nat option"

record InvData =
  inv_title :: "string option"
  inv_videoThumbnails :: "InvThumb list option"
  inv_author :: "string option"
  inv_description :: "string option"
  inv_lengthSeconds :: "nat option"
  inv_formatStreams :: "InvStream list option"
  inv_adaptiveFormats :: "InvStream list option"

record TikAuthor =
  nickname :: "string option"

record TikData =
  hdplay :: "string option"
  play :: "string option"
  wmplay :: "string option"
  tik_size :: "nat option"
  music :: "string option"
  tik_title :: "string option"
  cover :: "string option"
  tik_duration :: "nat option"
  tik_author :: "TikAuthor option"

record TikJson =
  tik_code :: "int option"
  tik_msg :: "string option"
  tik_data :: "TikData option"

record TwItem =
  tw_type :: "string option"
  tw_height :: "nat option"
  tw_url :: "string option"
  thumbnail_url :: "string option"

record TwMedia =
  tw_all :: "TwItem list option"

record Tweet =
  tw_text :: "string option"
  tw_media :: "TwMedia option"
  user_name :: "string option"
  user_screen_name :: "string option"
  tweetURL :: "string option"

record TwJson =
  tweet :: "Tweet option"
  tw_message :: "string option"

record IgItem =
  item_video_url :: "string option"
  item_image_url :: "string option"

record IgData =
  video_url :: "string option"
  image_url :: "string option"
  carousel :: "IgItem list option"
  caption :: "string option"
  ig_thumbnail :: "string option"
  username :: "string option"

record IgJson =
  ig_success :: bool
  ig_message :: "string option"
  ig_data :: "IgData option"

record FbJson =
  fb_success :: bool
  fb_message :: "string option"
  fb_hd :: "string option"
  fb_sd :: "string option"
  fb_thumbnail :: "string option"

record PinJson =
  pin_success :: bool
  pin_message :: "string option"
  pin_video :: "string option"
  pin_image :: "string option"
  pin_title :: "string option"
  pin_author :: "string option"
  pin_description :: "string option"

record OembedJson =
  oe_title :: "string option"
  author_name :: "string option"

record world =
  invidious :: "InvData service"
  tikwm :: "TikJson service"
  vxtwitter :: "TwJson service"
  ddinstagram :: "IgJson service"
  fbdownloader :: "FbJson service"
  pinloader :: "PinJson service"
  oembed :: "OembedJson service"

section \<open>Shared pieces of the YouTube resolvers\<close>

definition id11 :: rx where
  \<comment> \<open>\<open>[a-zA-Z0-9_-]{11}\<close>\<close>
  "id11 = Rep Greedy 11 (Some 11) isWordDash"

definition typeIncludes :: "InvStream \<Rightarrow> string \<Rightarrow> bool" where
  \<comment> \<open>\<open>s.type?.includes(text)\<close>\<close>
  "typeIncludes s text = (case s_type s of None \<Rightarrow> False | Some t \<Rightarrow> str_includes t text)"

definition isVideoMp4 :: "InvStream \<Rightarrow> bool" where
  "isVideoMp4 s = (typeIncludes s ''video/mp4'' \<and> truthy (s_qualityLabel s))"

definition isAudio :: "InvStream \<Rightarrow> bool" where
  "isAudio s = typeIncludes s ''audio''"

definition byBitrate :: "InvStream \<Rightarrow> InvStream \<Rightarrow> int" where
  \<comment> \<open>\<open>(a, b) => (b.bitrate || 0) - (a.bitrate || 0)\<close>\<close>
  "byBitrate a b = int (orZero (s_bitrate b)) - int (orZero (s_bitrate a))"

definition bestAudio :: "InvStream list \<Rightarrow> InvStream option" where
  \<comment> \<open>\<open>audioStreams.sort(byBitrate)[0]\<close>\<close>
  "bestAudio audioStreams = first (js_sort byBitrate audioStreams)"

definition qualityOrder :: "string list" where
  "qualityOrder = [''2160p'', ''1440p'', ''1080p'', ''720p'', ''480p'', ''360p'', ''240p'', ''144p'', ''audio'']"

definition template :: "nat option \<Rightarrow> string" where
  \<comment> \<open>a numeric field inside a template literal\<close>
  "template n = (case n of None \<Rightarrow> ''undefined'' | Some k \<Rightarrow> numberText k)"

definition thumbUrl :: "InvThumb option \<Rightarrow> string option" where
  "thumbUrl t = (case t of None \<Rightarrow> None | Some x \<Rightarrow> th_url x)"

definition findThumb :: "InvThumb list option \<Rightarrow> string \<Rightarrow> string option" where
  \<comment> \<open>\<open>data.videoThumbnails?.find(t => t.quality === q)?.url\<close>\<close>
  "findThumb ths q =
     (case ths of None \<Rightarrow> None | Some ts \<Rightarrow> thumbUrl (List.find (\<lambda>t. th_quality t = Some q) ts))"

definition firstThumb :: "InvThumb list option \<Rightarrow> string option" where
  \<comment> \<open>\<open>data.videoThumbnails?.[0]?.url\<close>\<close>
  "firstThumb ths = (case ths of None \<Rightarrow> None | Some ts \<Rightarrow> thumbUrl (first ts))"

definition orEmpty :: "'a list option \<Rightarrow> 'a list" where
  \<comment> \<open>\<open>xs || []\<close> and \<open>xs ?? []\<close>\<close>
  "orEmpty xs = (case xs of None \<Rightarrow> [] | Some ys \<Rightarrow> ys)"

section \<open>Resolvers, first draft of the download service\<close>

text \<open>
  The repository holds several drafts of the download service (\<open>services/downloadService\<close>)
  that use the same names.  The definitions with the suffix \<open>_a\<close> are those of the draft with the
  inline mirror loop (five mirrors, eight seconds each; the first file of part_002); the suffix
  \<open>_b\<close> marks the draft with \<open>getInvidiousUrl\<close> (part_003), \<open>_s\<close> the backend and \<open>_h\<close> the
  serverless function.  A definition without a suffix is the same in the drafts that have it.
  A resolver takes the service it calls, the address and the log of requests made so far; it
  returns the record or the error thrown, and the log.  The \<open>default\<close> branch of the \<open>switch\<close> on
  the platform name is left out: the type of names has the seven names only.
\<close>

definition INV_MIRRORS_a :: "string list" where
  "INV_MIRRORS_a =
     [''https://invidious.snopyta.org'', ''https://y.com.sb'', ''https://inv.riverside.rocks'',
      ''https://invidious.fdn.fr'', ''https://invidious.tiekoetter.com'']"

definition getYoutubeVideoId_a :: "string \<Rightarrow> string option" where
  "getYoutubeVideoId_a u =
     (case match1 (Alt (Seq (Lit ''youtube.com/'') (Alt (Lit ''embed/'') (Lit ''watch?v='')))
                       (Lit ''youtu.be/'')) id11 Eps u of
        Some g \<Rightarrow> Some g
      | None \<Rightarrow> match1 (Lit ''youtube.com/shorts/'') id11 Eps u)"

definition videoApi_a :: "string \<Rightarrow> string \<Rightarrow> request" where
  "videoApi_a base videoId =
     \<lparr>http_method = GET,
      target = base @ ''/api/v1/videos/'' @ videoId
        @ ''?fields=title,videoThumbnails,author,description,lengthSeconds,formatStreams,adaptiveFormats'',
      timeout = Some 8000\<rparr>"

fun mirrorLoop_a :: "InvData service \<Rightarrow> string \<Rightarrow> string list \<Rightarrow> log \<Rightarrow> InvData option \<times> log" where
  \<comment> \<open>the loop over the mirrors: the value of \<open>data\<close> after it, and the log\<close>
  "mirrorLoop_a net videoId [] lg = (None, lg)"
| "mirrorLoop_a net videoId (base # bases) lg =
     (case net (videoApi_a base videoId) of
        Rejected e \<Rightarrow> mirrorLoop_a net videoId bases (lg @ [videoApi_a base videoId])
      | Response ok statusText b \<Rightarrow>
          if ok then
            (case json b of
               Inl e \<Rightarrow> mirrorLoop_a net videoId bases (lg @ [videoApi_a base videoId])
             | Inr d \<Rightarrow> (d, lg @ [videoApi_a base videoId]))
          else mirrorLoop_a net videoId bases (lg @ [videoApi_a base videoId]))"

definition videoOption_a :: "InvStream \<Rightarrow> DownloadOption" where
  "videoOption_a s =
     \<lparr>quality = orText (s_qualityLabel s) (template (s_height s) @ ''p''),
      format = ''mp4'',
      dl_url = s_url s,
      dl_size = sizeText 1 (s_contentLength s)\<rparr>"

definition audioOption_a :: "InvStream \<Rightarrow> DownloadOption" where
  "audioOption_a s =
     \<lparr>quality = ''audio'', format = ''m4a'', dl_url = s_url s,
      dl_size = sizeText 1 (s_contentLength s)\<rparr>"

definition byOrder_a :: "DownloadOption \<Rightarrow> DownloadOption \<Rightarrow> int" where
  \<comment> \<open>\<open>(a, b) => order.indexOf(a.quality) - order.indexOf(b.quality)\<close>\<close>
  "byOrder_a a b = indexOf qualityOrder (quality a) - indexOf qualityOrder (quality b)"

definition rank_a :: "DownloadOption list \<Rightarrow> DownloadOption list" where
  "rank_a options = js_sort byOrder_a options"

definition extract_a :: "InvData \<Rightarrow> DownloadOption list" where
  \<comment> \<open>the options before they are ranked\<close>
  "extract_a d =
     (let streams = orEmpty (inv_formatStreams d) @ orEmpty (inv_adaptiveFormats d)
      in map videoOption_a (filter isVideoMp4 streams)
         @ (case bestAudio (filter isAudio streams) of None \<Rightarrow> [] | Some a \<Rightarrow> [audioOption_a a]))"

definition youtubeInfo_a :: "string \<Rightarrow> InvData \<Rightarrow> error + MediaInfo" where
  "youtubeInfo_a videoId d =
     (if extract_a d = [] then Inl (Error ''No downloadable streams (private/live?)'')
      else
        case (if truthyN (inv_lengthSeconds d) then clock (orZero (inv_lengthSeconds d)) 11 8
              else Inr ''LIVE'') of
          Inl e \<Rightarrow> Inl e
        | Inr t \<Rightarrow>
            Inr \<lparr>title = Some (orText (inv_title d) ''YouTube Video''),
                 thumbnail = orElse (findThumb (inv_videoThumbnails d) ''maxresdefault'')
                                    (firstThumb (inv_videoThumbnails d)),
                 duration = Some t,
                 author = inv_author d,
                 platform = YouTube,
                 url = Some (''https://youtube.com/watch?v='' @ videoId),
                 description = map_option (\<lambda>s. slice0 s 500) (inv_description d),
                 downloadOptions = rank_a (extract_a d)\<rparr>)"

definition fetchYouTubeInfo_a :: "InvData service \<Rightarrow> string \<Rightarrow> log \<Rightarrow> (error + MediaInfo) \<times> log" where
  "fetchYouTubeInfo_a net u lg =
     (case getYoutubeVideoId_a u of
        None \<Rightarrow> (Inl (Error ''Invalid YouTube URL''), lg)
      | Some videoId \<Rightarrow>
          (case mirrorLoop_a net videoId INV_MIRRORS_a lg of
             (None, lg') \<Rightarrow> (Inl (Error ''All YouTube mirrors failed. Try again later.''), lg')
           | (Some d, lg') \<Rightarrow> (youtubeInfo_a videoId d, lg')))"

definition tiktokApi :: "string \<Rightarrow> request" where
  "tiktokApi u = get (''https://www.tikwm.com/api/?url='' @ encodeURIComponent u @ ''&hd=1'')"

definition musicOption :: "TikData \<Rightarrow> DownloadOption list" where
  "musicOption d =
     (case music d of
        None \<Rightarrow> []
      | Some m \<Rightarrow>
          if m = [] then []
          else [\<lparr>quality = ''Audio'', format = ''mp3'',
                 dl_url = Some (if startsWith m ''http'' then m else ''https://www.tikwm.com'' @ m),
                 dl_size = None\<rparr>])"

definition authorNickname :: "TikData \<Rightarrow> string option" where
  \<comment> \<open>\<open>d.author?.nickname\<close>\<close>
  "authorNickname d = (case tik_author d of None \<Rightarrow> None | Some a \<Rightarrow> nickname a)"

definition tiktokOptions_a :: "TikData \<Rightarrow> DownloadOption list" where
  "tiktokOptions_a d =
     (if truthy (orElse (hdplay d) (play d))
      then [\<lparr>quality = ''HD Video'', format = ''mp4'', dl_url = orElse (hdplay d) (play d),
              dl_size = sizeText 1 (tik_size d)\<rparr>]
      else [])
     @ musicOption d"

definition tiktokInfo_a :: "string \<Rightarrow> TikJson option \<Rightarrow> error + MediaInfo" where
  "tiktokInfo_a u j =
     (case j of
        None \<Rightarrow> Inl nullAccess
      | Some js \<Rightarrow>
          if tik_code js \<noteq> Some 0 then Inl (Error (orText (tik_msg js) ''TikTok fetch failed''))
          else
            (case tik_data js of
               None \<Rightarrow> Inl nullAccess
             | Some d \<Rightarrow>
                 if tiktokOptions_a d = [] then Inl (Error ''No media found'')
                 else
                   (case (if truthyN (tik_duration d) then clock (orZero (tik_duration d)) 14 5
                          else Inr ''00:00'') of
                      Inl e \<Rightarrow> Inl e
                    | Inr t \<Rightarrow>
                        Inr \<lparr>title = Some (orText (tik_title d) ''TikTok Video''),
                             thumbnail = cover d,
                             duration = Some t,
                             author = Some (orText (authorNickname d) ''Unknown''),
                             platform = TikTok,
                             url = Some u,
                             description = tik_title d,
                             downloadOptions = tiktokOptions_a d\<rparr>)))"

definition fetchTikTokInfo_a :: "TikJson service \<Rightarrow> string \<Rightarrow> log \<Rightarrow> (error + MediaInfo) \<times> log" where
  "fetchTikTokInfo_a net u lg =
     (case fetchJson net (tiktokApi u) (\<lambda>_. Error ''TikTok API down'') of
        Inl e \<Rightarrow> (Inl e, lg @ [tiktokApi u])
      | Inr j \<Rightarrow> (tiktokInfo_a u j, lg @ [tiktokApi u]))"

definition extension :: "string \<Rightarrow> string" where
  \<comment> \<open>\<open>u.split('.').pop()\<close>\<close>
  "extension u = lastSegment [] u"

definition mediaOption_a :: "TwItem \<Rightarrow> error + DownloadOption list" where
  \<comment> \<open>the body of \<open>media.forEach\<close>: the options pushed for one item, or the error thrown\<close>
  "mediaOption_a m =
     (if tw_type m = Some ''video'' \<or> tw_type m = Some ''gif'' then
        (case tw_url m of
           None \<Rightarrow> Inl nullAccess
         | Some u \<Rightarrow>
             Inr [\<lparr>quality = (if truthyN (tw_height m) then template (tw_height m) @ ''p'' else ''Video''),
                   format = (if extension u = [] then ''mp4'' else extension u),
                   dl_url = Some u, dl_size = None\<rparr>])
      else if tw_type m = Some ''photo'' then
        (case tw_url m of
           None \<Rightarrow> Inl nullAccess
         | Some u \<Rightarrow>
             Inr [\<lparr>quality = ''Photo'',
                   format = (if extension u = [] then ''jpg'' else extension u),
                   dl_url = Some u, dl_size = None\<rparr>])
      else Inr [])"

fun forEach :: "('a \<Rightarrow> error + 'b list) \<Rightarrow> 'a list \<Rightarrow> error + 'b list" where
  \<comment> \<open>a loop that pushes onto a list and stops at the first error thrown\<close>
  "forEach f [] = Inr []"
| "forEach f (x # xs) =
     (case f x of
        Inl e \<Rightarrow> Inl e
      | Inr ys \<Rightarrow> (case forEach f xs of Inl e \<Rightarrow> Inl e | Inr zs \<Rightarrow> Inr (ys @ zs)))"

definition mediaAll :: "Tweet \<Rightarrow> TwItem list" where
  \<comment> \<open>\<open>t.media?.all || []\<close>\<close>
  "mediaAll t = (case tw_media t of None \<Rightarrow> [] | Some m \<Rightarrow> orEmpty (tw_all m))"

definition firstThumbnailUrl :: "TwItem list \<Rightarrow> string option" where
  \<comment> \<open>\<open>media[0]?.thumbnail_url\<close>\<close>
  "firstThumbnailUrl media = (case first media of None \<Rightarrow> None | Some m \<Rightarrow> thumbnail_url m)"

definition firstUrl :: "TwItem list \<Rightarrow> string option" where
  \<comment> \<open>\<open>media[0]?.url\<close>\<close>
  "firstUrl media = (case first media of None \<Rightarrow> None | Some m \<Rightarrow> tw_url m)"

definition twitterHost_a :: rx where
  \<comment> \<open>\<open>(https?:\/\/)?(www\.)?(twitter\.com|x\.com)\<close>, anchored at the start by its use\<close>
  "twitterHost_a = Seqs [scheme, www, Alt (Lit ''twitter.com'') (Lit ''x.com'')]"

definition twitterApi_a :: "string \<Rightarrow> request" where
  "twitterApi_a u = get (replacePrefix twitterHost_a ''https://api.vxtwitter.com'' u)"

definition twitterInfo_a :: "string \<Rightarrow> TwJson option \<Rightarrow> error + MediaInfo" where
  "twitterInfo_a u j =
     (case j of
        None \<Rightarrow> Inl nullAccess
      | Some js \<Rightarrow>
          (case tweet js of
             None \<Rightarrow> Inl (Error (orText (tw_message js) ''Tweet not found''))
           | Some t \<Rightarrow>
               (case forEach mediaOption_a (mediaAll t) of
                  Inl e \<Rightarrow> Inl e
                | Inr opts \<Rightarrow>
                    if opts = [] then Inl (Error ''No media in tweet'')
                    else
                      Inr \<lparr>title = Some (slice0 (orText (tw_text t) []) 100 @ ''...''),
                           thumbnail = orElse (firstThumbnailUrl (mediaAll t)) (firstUrl (mediaAll t)),
                           duration = None,
                           author = orElse (user_name t) (user_screen_name t),
                           platform = Twitter,
                           url = orElse (tweetURL t) (Some u),
                           description = tw_text t,
                           downloadOptions = opts\<rparr>)))"

definition fetchTwitterInfo_a :: "TwJson service \<Rightarrow> string \<Rightarrow> log \<Rightarrow> (error + MediaInfo) \<times> log" where
  "fetchTwitterInfo_a net u lg =
     (case fetchJson net (twitterApi_a u) (\<lambda>_. Error ''Twitter API error'') of
        Inl e \<Rightarrow> (Inl e, lg @ [twitterApi_a u])
      | Inr j \<Rightarrow> (twitterInfo_a u j, lg @ [twitterApi_a u]))"

definition instagramApi :: "string \<Rightarrow> request" where
  "instagramApi u = get (''https://ddinstagram.com/api/?url='' @ encodeURIComponent u)"

fun slides :: "nat \<Rightarrow> IgItem list \<Rightarrow> DownloadOption list" where
  \<comment> \<open>\<open>d.carousel.forEach((item, i) => ..)\<close>, from index \<open>i\<close> on\<close>
  "slides i [] = []"
| "slides i (item # items) =
     (if truthy (item_video_url item)
      then \<lparr>quality = ''Slide '' @ showNat (i + 1) @ '' (Video)'', format = ''mp4'',
             dl_url = item_video_url item, dl_size = None\<rparr>
      else \<lparr>quality = ''Slide '' @ showNat (i + 1) @ '' (Image)'', format = ''jpg'',
             dl_url = item_image_url item, dl_size = None\<rparr>)
     # slides (i + 1) items"

definition instagramOptions :: "IgData \<Rightarrow> DownloadOption list" where
  "instagramOptions d =
     (if truthy (video_url d)
      then [\<lparr>quality = ''Video'', format = ''mp4'', dl_url = video_url d, dl_size = None\<rparr>] else [])
     @ (if truthy (image_url d)
        then [\<lparr>quality = ''Image'', format = ''jpg'', dl_url = image_url d, dl_size = None\<rparr>] else [])
     @ (case carousel d of None \<Rightarrow> [] | Some items \<Rightarrow> slides 0 items)"

definition instagramInfo :: "string \<Rightarrow> IgJson option \<Rightarrow> error + MediaInfo" where
  "instagramInfo u j =
     (case j of
        None \<Rightarrow> Inl nullAccess
      | Some js \<Rightarrow>
          if \<not> ig_success js then Inl (Error (orText (ig_message js) ''Instagram fetch failed''))
          else
            (case ig_data js of
               None \<Rightarrow> Inl nullAccess
             | Some d \<Rightarrow>
                 if instagramOptions d = [] then Inl (Error ''No media found'')
                 else
                   Inr \<lparr>title = Some (orText (map_option (\<lambda>c. slice0 c 100) (caption d)) ''Instagram Post''),
                        thumbnail = orElse (ig_thumbnail d) (image_url d),
                        duration = None,
                        author = username d,
                        platform = Instagram,
                        url = Some u,
                        description = caption d,
                        downloadOptions = instagramOptions d\<rparr>))"

definition fetchInstagramInfo :: "IgJson service \<Rightarrow> string \<Rightarrow> log \<Rightarrow> (error + MediaInfo) \<times> log" where
  "fetchInstagramInfo net u lg =
     (case fetchJson net (instagramApi u) (\<lambda>_. Error ''Instagram API error'') of
        Inl e \<Rightarrow> (Inl e, lg @ [instagramApi u])
      | Inr j \<Rightarrow> (instagramInfo u j, lg @ [instagramApi u]))"

definition facebookApi :: "string \<Rightarrow> request" where
  "facebookApi u = get (''https://fbdownloader.org/api/?url='' @ encodeURIComponent u)"

definition facebookOptions :: "FbJson \<Rightarrow> DownloadOption list" where
  "facebookOptions js =
     (if truthy (fb_hd js) then [\<lparr>quality = ''HD'', format = ''mp4'', dl_url = fb_hd js, dl_size = None\<rparr>] else [])
     @ (if truthy (fb_sd js) then [\<lparr>quality = ''SD'', format = ''mp4'', dl_url = fb_sd js, dl_size = None\<rparr>] else [])"

definition facebookInfo :: "string \<Rightarrow> FbJson option \<Rightarrow> error + MediaInfo" where
  "facebookInfo u j =
     (case j of
        None \<Rightarrow> Inl nullAccess
      | Some js \<Rightarrow>
          if \<not> fb_success js then Inl (Error (orText (fb_message js) ''Facebook fetch failed''))
          else if facebookOptions js = [] then Inl (Error ''No video found (maybe private)'')
          else
            Inr \<lparr>title = Some ''Facebook Video'',
                 thumbnail = fb_thumbnail js,
                 duration = None,
                 author = Some ''Facebook User'',
                 platform = Facebook,
                 url = Some u,
                 description = Some [],
                 downloadOptions = facebookOptions js\<rparr>)"

definition fetchFacebookInfo :: "FbJson service \<Rightarrow> string \<Rightarrow> log \<Rightarrow> (error + MediaInfo) \<times> log" where
  "fetchFacebookInfo net u lg =
     (case fetchJson net (facebookApi u) (\<lambda>_. Error ''Facebook API error'') of
        Inl e \<Rightarrow> (Inl e, lg @ [facebookApi u])
      | Inr j \<Rightarrow> (facebookInfo u j, lg @ [facebookApi u]))"

definition pinterestApi :: "string \<Rightarrow> request" where
  "pinterestApi u = get (''https://pinloader.net/api/?url='' @ encodeURIComponent u)"

definition pinterestOptions :: "PinJson \<Rightarrow> DownloadOption list" where
  "pinterestOptions js =
     (if truthy (pin_video js)
      then [\<lparr>quality = ''Video'', format = ''mp4'', dl_url = pin_video js, dl_size = None\<rparr>] else [])
     @ (if truthy (pin_image js)
        then [\<lparr>quality = ''Image'', format = ''jpg'', dl_url = pin_image js, dl_size = None\<rparr>] else [])"

definition pinterestInfo :: "string \<Rightarrow> PinJson option \<Rightarrow> error + MediaInfo" where
  "pinterestInfo u j =
     (case j of
        None \<Rightarrow> Inl nullAccess
      | Some js \<Rightarrow>
          if \<not> pin_success js then Inl (Error (orText (pin_message js) ''Pinterest fetch failed''))
          else if pinterestOptions js = [] then Inl (Error ''No media found'')
          else
            Inr \<lparr>title = Some (orText (pin_title js) ''Pinterest Pin''),
                 thumbnail = orElse (pin_image js) (pin_video js),
                 duration = None,
                 author = Some (orText (pin_author js) ''Unknown''),
                 platform = Pinterest,
                 url = Some u,
                 description = pin_description js,
                 downloadOptions = pinterestOptions js\<rparr>)"

definition fetchPinterestInfo :: "PinJson service \<Rightarrow> string \<Rightarrow> log \<Rightarrow> (error + MediaInfo) \<times> log" where
  "fetchPinterestInfo net u lg =
     (case fetchJson net (pinterestApi u) (\<lambda>_. Error ''Pinterest API error'') of
        Inl e \<Rightarrow> (Inl e, lg @ [pinterestApi u])
      | Inr j \<Rightarrow> (pinterestInfo u j, lg @ [pinterestApi u]))"

definition dispatch_a :: "world \<Rightarrow> string \<Rightarrow> PlatformName \<Rightarrow> log \<Rightarrow> (error + MediaInfo) \<times> log" where
  \<comment> \<open>the \<open>switch\<close> on \<open>platform.name\<close>\<close>
  "dispatch_a w u n lg =
     (case n of
        YouTube \<Rightarrow> fetchYouTubeInfo_a (invidious w) u lg
      | TikTok \<Rightarrow> fetchTikTokInfo_a (tikwm w) u lg
      | Twitter \<Rightarrow> fetchTwitterInfo_a (vxtwitter w) u lg
      | Instagram \<Rightarrow> fetchInstagramInfo (ddinstagram w) u lg
      | Facebook \<Rightarrow> fetchFacebookInfo (fbdownloader w) u lg
      | Pinterest \<Rightarrow> fetchPinterestInfo (pinloader w) u lg
      | LinkedIn \<Rightarrow> (Inl (Error ''LinkedIn not supported (no public API)''), lg))"

definition fetchMediaInfo_a :: "world \<Rightarrow> string \<Rightarrow> Platform \<Rightarrow> log \<Rightarrow> (error + MediaInfo) \<times> log" where
  "fetchMediaInfo_a w u p lg =
     (case dispatch_a w u (name p) lg of
        (Inl e, lg') \<Rightarrow>
          (Inl (Error (if message e = [] then ''Failed to fetch '' @ platformText (name p) @ '' media''
                       else message e)), lg')
      | (Inr info, lg') \<Rightarrow> (Inr info, lg'))"

section \<open>Resolvers, second draft of the download service\<close>

text \<open>
  This draft (part_003) asks the mirrors with a \<open>HEAD\<close> request for one that answers, fetches
  the video data from it, reads the adaptive formats only and renders sizes with two decimals.
  It resolves YouTube, TikTok and Twitter; for the other platforms it throws.
\<close>

definition INV_MIRRORS_b :: "string list" where
  "INV_MIRRORS_b =
     [''https://invidious.io.lol'', ''https://invidious.snopyta.org'', ''https://y.com.sb'',
      ''https://inv.riverside.rocks'', ''https://invidious.fdn.fr'']"

definition probe :: "string \<Rightarrow> request" where
  \<comment> \<open>\<open>fetch(url, { method: 'HEAD', signal: AbortSignal.timeout(5000) })\<close>\<close>
  "probe u = \<lparr>http_method = HEAD, target = u, timeout = Some 5000\<rparr>"

fun probeLoop :: "'a service \<Rightarrow> string \<Rightarrow> string list \<Rightarrow> log \<Rightarrow> (error + string) \<times> log" where
  \<comment> \<open>the loop of \<open>getInvidiousUrl\<close> over the mirrors\<close>
  "probeLoop net path [] lg = (Inl (Error ''All Invidious mirrors are down''), lg)"
| "probeLoop net path (base # bases) lg =
     (case net (probe (base @ path)) of
        Rejected e \<Rightarrow> probeLoop net path bases (lg @ [probe (base @ path)])
      | Response ok statusText b \<Rightarrow>
          if ok then (Inr (base @ path), lg @ [probe (base @ path)])
          else probeLoop net path bases (lg @ [probe (base @ path)]))"

definition getInvidiousUrl :: "'a service \<Rightarrow> string \<Rightarrow> log \<Rightarrow> (error + string) \<times> log" where
  "getInvidiousUrl net path lg = probeLoop net path INV_MIRRORS_b lg"

definition nonSpace :: "char \<Rightarrow> bool" where
  \<comment> \<open>\<open>\S\<close>\<close>
  "nonSpace c = (\<not> isSpace c)"

definition pathChar :: "char \<Rightarrow> bool" where
  \<comment> \<open>\<open>[^\/\n\s]\<close>\<close>
  "pathChar c = (c \<noteq> CHR ''/'' \<and> \<not> isSpace c)"

definition getYoutubeVideoId_b :: "string \<Rightarrow> string option" where
  "getYoutubeVideoId_b u =
     match1
       (Alt (Seq (Lit ''youtube.com/'')
                 (Alts [Seqs [Plus pathChar, Lit ''/'', Plus nonSpace, Lit ''/''],
                        Seqs [Alt (Lit ''v'') (Seq (Lit ''e'') (Opt (Lit ''mbed''))), Lit ''/''],
                        Seqs [Rep Lazy 0 None nonSpace,
                              Cls (\<lambda>c. c = CHR ''?'' \<or> c = CHR ''&''), Lit ''v='']]))
            (Lit ''youtu.be/''))
       id11 Eps u"

record VideoPick =
  v_quality :: string
  v_url :: "string option"
  v_size :: "nat option"

record AudioPick =
  a_bitrate :: nat
  a_url :: "string option"
  a_size :: "nat option"

definition text_of :: "string option \<Rightarrow> string" where
  \<comment> \<open>a field that a filter has already found to be a non-empty string\<close>
  "text_of x = (case x of None \<Rightarrow> [] | Some s \<Rightarrow> s)"

definition number_of :: "nat option \<Rightarrow> nat option" where
  \<comment> \<open>\<open>s.contentLength ? Number(s.contentLength) : undefined\<close>\<close>
  "number_of n = (if truthyN n then n else None)"

definition videoPick :: "InvStream \<Rightarrow> VideoPick" where
  "videoPick s = \<lparr>v_quality = text_of (s_qualityLabel s), v_url = s_url s,
                  v_size = number_of (s_contentLength s)\<rparr>"

definition audioPick :: "InvStream \<Rightarrow> AudioPick" where
  "audioPick s = \<lparr>a_bitrate = orZero (s_bitrate s), a_url = s_url s,
                  a_size = number_of (s_contentLength s)\<rparr>"

definition byBitrate_b :: "AudioPick \<Rightarrow> AudioPick \<Rightarrow> int" where
  \<comment> \<open>\<open>(a, b) => b.bitrate - a.bitrate\<close>\<close>
  "byBitrate_b a b = int (a_bitrate b) - int (a_bitrate a)"

definition bestAudio_b :: "AudioPick list \<Rightarrow> AudioPick option" where
  "bestAudio_b audioStreams = first (js_sort byBitrate_b audioStreams)"

definition videoOption_b :: "VideoPick \<Rightarrow> DownloadOption" where
  "videoOption_b s =
     \<lparr>quality = v_quality s, format = ''mp4'', dl_url = v_url s, dl_size = sizeText 2 (v_size s)\<rparr>"

definition audioOption_b :: "AudioPick \<Rightarrow> DownloadOption" where
  "audioOption_b s =
     \<lparr>quality = ''audio'', format = ''m4a'', dl_url = a_url s, dl_size = sizeText 2 (a_size s)\<rparr>"

definition place_b :: "string \<Rightarrow> int" where
  \<comment> \<open>\<open>qualityOrder.indexOf(q)\<close>, with \<open>999\<close> in the place of \<open>-1\<close>\<close>
  "place_b q = (if indexOf qualityOrder q = - 1 then 999 else indexOf qualityOrder q)"

definition byOrder_b :: "DownloadOption \<Rightarrow> DownloadOption \<Rightarrow> int" where
  "byOrder_b a b = place_b (quality a) - place_b (quality b)"

definition rank_b :: "DownloadOption list \<Rightarrow> DownloadOption list" where
  "rank_b options = js_sort byOrder_b options"

definition extract_b :: "InvData \<Rightarrow> DownloadOption list" where
  "extract_b d =
     map videoOption_b (map videoPick (filter isVideoMp4 (orEmpty (inv_adaptiveFormats d))))
     @ (case bestAudio_b (map audioPick (filter isAudio (orEmpty (inv_adaptiveFormats d)))) of
          None \<Rightarrow> []
        | Some a \<Rightarrow> [audioOption_b a])"

definition youtubeInfo_b :: "string \<Rightarrow> InvData option \<Rightarrow> error + MediaInfo" where
  "youtubeInfo_b videoId j =
     (case j of
        None \<Rightarrow> Inl nullAccess
      | Some d \<Rightarrow>
          if extract_b d = [] then Inl (Error ''No streams found (private / live?)'')
          else
            (case clock (orZero (inv_lengthSeconds d)) 11 8 of
               Inl e \<Rightarrow> Inl e
             | Inr t \<Rightarrow>
                 Inr \<lparr>title = nullish (inv_title d) (Some ''Untitled''),
                      thumbnail = nullish (findThumb (inv_videoThumbnails d) ''maxresdefault'')
                                          (firstThumb (inv_videoThumbnails d)),
                      duration = Some t,
                      author = inv_author d,
                      platform = YouTube,
                      url = Some (''https://www.youtube.com/watch?v='' @ videoId),
                      description = inv_description d,
                      downloadOptions = rank_b (extract_b d)\<rparr>))"

definition fetchYouTubeInfo_b :: "InvData service \<Rightarrow> string \<Rightarrow> log \<Rightarrow> (error + MediaInfo) \<times> log" where
  "fetchYouTubeInfo_b net u lg =
     (case getYoutubeVideoId_b u of
        None \<Rightarrow> (Inl (Error ''Invalid YouTube URL''), lg)
      | Some videoId \<Rightarrow>
          (case getInvidiousUrl net (''/api/v1/videos/'' @ videoId) lg of
             (Inl e, lg') \<Rightarrow> (Inl e, lg')
           | (Inr apiUrl, lg') \<Rightarrow>
               (case fetchJson net (get apiUrl) (\<lambda>st. Error (''Invidious error: '' @ st)) of
                  Inl e \<Rightarrow> (Inl e, lg' @ [get apiUrl])
                | Inr j \<Rightarrow> (youtubeInfo_b videoId j, lg' @ [get apiUrl]))))"

definition tiktokOptions_b :: "TikData \<Rightarrow> DownloadOption list" where
  "tiktokOptions_b d =
     (if truthy (nullish (hdplay d) (nullish (play d) (wmplay d)))
      then [\<lparr>quality = ''HD Video'', format = ''mp4'',
              dl_url = nullish (hdplay d) (nullish (play d) (wmplay d)),
              dl_size = sizeText 2 (tik_size d)\<rparr>]
      else [])
     @ musicOption d"

definition tiktokInfo_b :: "string \<Rightarrow> TikJson option \<Rightarrow> error + MediaInfo" where
  "tiktokInfo_b u j =
     (case j of
        None \<Rightarrow> Inl nullAccess
      | Some js \<Rightarrow>
          if tik_code js \<noteq> Some 0
          then Inl (Error (text_of (nullish (tik_msg js) (Some ''TikTok fetch failed''))))
          else
            (case tik_data js of
               None \<Rightarrow> Inl nullAccess
             | Some d \<Rightarrow>
                 if tiktokOptions_b d = [] then Inl (Error ''No downloadable media on this TikTok'')
                 else
                   (case clock (orZero (tik_duration d)) 14 5 of
                      Inl e \<Rightarrow> Inl e
                    | Inr t \<Rightarrow>
                        Inr \<lparr>title = Some (orText (tik_title d) ''TikTok Video''),
                             thumbnail = cover d,
                             duration = Some t,
                             author = nullish (authorNickname d) (Some ''Unknown''),
                             platform = TikTok,
                             url = Some u,
                             description = tik_title d,
                             downloadOptions = tiktokOptions_b d\<rparr>)))"

definition fetchTikTokInfo_b :: "TikJson service \<Rightarrow> string \<Rightarrow> log \<Rightarrow> (error + MediaInfo) \<times> log" where
  "fetchTikTokInfo_b net u lg =
     (case fetchJson net (tiktokApi u) (\<lambda>st. Error (''TikTok API error: '' @ st)) of
        Inl e \<Rightarrow> (Inl e, lg @ [tiktokApi u])
      | Inr j \<Rightarrow> (tiktokInfo_b u j, lg @ [tiktokApi u]))"

definition httpScheme :: rx where
  \<comment> \<open>\<open>https?:\/\/\<close>\<close>
  "httpScheme = Seqs [Lit ''http'', Opt (Lit ''s''), Lit ''://'']"

definition twitterApi_b :: "string \<Rightarrow> request" where
  "twitterApi_b u =
     get (replacePrefix (Seqs [httpScheme, www, Lit ''x.com'']) ''https://api.vxtwitter.com''
           (replacePrefix (Seqs [httpScheme, www, Lit ''twitter.com'']) ''https://api.vxtwitter.com'' u))"

definition mediaOption_b :: "TwItem \<Rightarrow> error + DownloadOption list" where
  "mediaOption_b m =
     (if tw_type m = Some ''video'' \<or> tw_type m = Some ''gif'' then
        (case tw_url m of
           None \<Rightarrow> Inl nullAccess
         | Some u \<Rightarrow>
             Inr [\<lparr>quality = template (tw_height m) @ ''p'', format = extension u,
                   dl_url = Some u, dl_size = None\<rparr>])
      else if tw_type m = Some ''photo'' then
        (case tw_url m of
           None \<Rightarrow> Inl nullAccess
         | Some u \<Rightarrow>
             Inr [\<lparr>quality = ''Image'', format = extension u, dl_url = Some u, dl_size = None\<rparr>])
      else Inr [])"

definition tweetTitle_b :: "string option \<Rightarrow> string" where
  \<comment> \<open>\<open>t.text?.slice(0, 80) + (t.text?.length > 80 ? '...' : '')\<close>\<close>
  "tweetTitle_b x =
     (case x of
        None \<Rightarrow> ''undefined''
      | Some s \<Rightarrow> slice0 s 80 @ (if length s > 80 then ''...'' else []))"

definition twitterInfo_b :: "TwJson option \<Rightarrow> error + MediaInfo" where
  "twitterInfo_b j =
     (case j of
        None \<Rightarrow> Inl nullAccess
      | Some js \<Rightarrow>
          (case tweet js of
             None \<Rightarrow> Inl (Error (text_of (nullish (tw_message js) (Some ''Tweet not found''))))
           | Some t \<Rightarrow>
               (case forEach mediaOption_b (mediaAll t) of
                  Inl e \<Rightarrow> Inl e
                | Inr opts \<Rightarrow>
                    if opts = [] then Inl (Error ''No media in this tweet'')
                    else
                      Inr \<lparr>title = Some (tweetTitle_b (tw_text t)),
                           thumbnail = nullish (firstThumbnailUrl (mediaAll t)) (firstUrl (mediaAll t)),
                           duration = None,
                           author = nullish (user_name t) (user_screen_name t),
                           platform = Twitter,
                           url = tweetURL t,
                           description = tw_text t,
                           downloadOptions = opts\<rparr>)))"

definition fetchTwitterInfo_b :: "TwJson service \<Rightarrow> string \<Rightarrow> log \<Rightarrow> (error + MediaInfo) \<times> log" where
  "fetchTwitterInfo_b net u lg =
     (case fetchJson net (twitterApi_b u) (\<lambda>st. Error (''vxtwitter error: '' @ st)) of
        Inl e \<Rightarrow> (Inl e, lg @ [twitterApi_b u])
      | Inr j \<Rightarrow> (twitterInfo_b j, lg @ [twitterApi_b u]))"

definition dispatch_b :: "world \<Rightarrow> string \<Rightarrow> PlatformName \<Rightarrow> log \<Rightarrow> (error + MediaInfo) \<times> log" where
  "dispatch_b w u n lg =
     (case n of
        YouTube \<Rightarrow> fetchYouTubeInfo_b (invidious w) u lg
      | TikTok \<Rightarrow> fetchTikTokInfo_b (tikwm w) u lg
      | Twitter \<Rightarrow> fetchTwitterInfo_b (vxtwitter w) u lg
      | Instagram \<Rightarrow> (Inl (Error (''Support for '' @ platformText n @ '' is coming soon!'')), lg)
      | Facebook \<Rightarrow> (Inl (Error (''Support for '' @ platformText n @ '' is coming soon!'')), lg)
      | LinkedIn \<Rightarrow> (Inl (Error (''Support for '' @ platformText n @ '' is coming soon!'')), lg)
      | Pinterest \<Rightarrow> (Inl (Error (''Support for '' @ platformText n @ '' is coming soon!'')), lg))"

definition fetchMediaInfo_b :: "world \<Rightarrow> string \<Rightarrow> Platform \<Rightarrow> log \<Rightarrow> (error + MediaInfo) \<times> log" where
  "fetchMediaInfo_b w u p lg =
     (case dispatch_b w u (name p) lg of
        (Inl e, lg') \<Rightarrow>
          (Inl (Error (if str_includes (message e) ''coming soon'' then message e
                       else ''Failed to fetch '' @ platformText (name p) @ '' media'')), lg')
      | (Inr info, lg') \<Rightarrow> (Inr info, lg'))"

section \<open>Backend (backend/server.mjs)\<close>

text \<open>
  The route reads the formats of a video from the \<open>ytdl-core\<close> library.  A format is taken as
  the library documents it: whether it carries video and audio, its container, quality label,
  address, length and audio bit rate.  The three filters are the library's named filters.
\<close>

record YtFormat =
  hasVideo :: bool
  hasAudio :: bool
  container :: string
  qualityLabel :: "string option"
  f_url :: string
  contentLength :: "nat option"
  audioBitrate :: "nat option"

datatype format_filter = VideoAndAudio | VideoOnly | AudioOnly

definition filterFormats :: "YtFormat list \<Rightarrow> format_filter \<Rightarrow> YtFormat list" where
  "filterFormats formats k =
     (case k of
        VideoAndAudio \<Rightarrow> filter (\<lambda>f. hasVideo f \<and> hasAudio f) formats
      | VideoOnly \<Rightarrow> filter (\<lambda>f. hasVideo f \<and> \<not> hasAudio f) formats
      | AudioOnly \<Rightarrow> filter (\<lambda>f. \<not> hasVideo f \<and> hasAudio f) formats)"

definition mp4Labelled :: "YtFormat \<Rightarrow> bool" where
  \<comment> \<open>\<open>f => f.container === 'mp4' && f.qualityLabel\<close>\<close>
  "mp4Labelled f = (container f = ''mp4'' \<and> truthy (qualityLabel f))"

definition muxedOption :: "YtFormat \<Rightarrow> DownloadOption" where
  "muxedOption f =
     \<lparr>quality = text_of (qualityLabel f), format = ''mp4'', dl_url = Some (f_url f),
      dl_size = sizeText 1 (contentLength f)\<rparr>"

definition videoOnlyOption :: "YtFormat \<Rightarrow> DownloadOption" where
  "videoOnlyOption f =
     \<lparr>quality = text_of (qualityLabel f) @ '' (no audio)'', format = ''mp4'', dl_url = Some (f_url f),
      dl_size = sizeText 1 (contentLength f)\<rparr>"

definition byAudioBitrate :: "YtFormat \<Rightarrow> YtFormat \<Rightarrow> int" where
  \<comment> \<open>\<open>(a, b) => (b.audioBitrate || 0) - (a.audioBitrate || 0)\<close>\<close>
  "byAudioBitrate a b = int (orZero (audioBitrate b)) - int (orZero (audioBitrate a))"

definition bestAudio_s :: "YtFormat list \<Rightarrow> YtFormat option" where
  "bestAudio_s audioFormats = first (js_sort byAudioBitrate audioFormats)"

definition audioOnlyOption :: "YtFormat \<Rightarrow> DownloadOption" where
  "audioOnlyOption f =
     \<lparr>quality = ''audio only'',
      format = (if container f = ''mp4'' then ''m4a'' else container f),
      dl_url = Some (f_url f),
      dl_size = sizeText 1 (contentLength f)\<rparr>"

definition extract_s :: "YtFormat list \<Rightarrow> DownloadOption list" where
  \<comment> \<open>\<open>downloadOptions\<close> after the three pushes\<close>
  "extract_s formats =
     map muxedOption (filter mp4Labelled (filterFormats formats VideoAndAudio))
     @ map videoOnlyOption (filter mp4Labelled (filterFormats formats VideoOnly))
     @ (case bestAudio_s (filterFormats formats AudioOnly) of
          None \<Rightarrow> []
        | Some a \<Rightarrow> [audioOnlyOption a])"

definition uniqueOptions :: "DownloadOption list \<Rightarrow> DownloadOption list" where
  \<comment> \<open>\<open>Array.from(new Map(downloadOptions.map(item => [item.quality, item])).values())\<close>\<close>
  "uniqueOptions options = mapValues (newMap (map (\<lambda>item. (quality item, item)) options))"

definition getScore_s :: "string \<Rightarrow> int" where
  "getScore_s q =
     (if str_includes q ''audio only'' then 0
      else case parseInt q of
             None \<Rightarrow> 1
           | Some res \<Rightarrow> res + (if str_includes q ''no audio'' then 0 else 10000))"

definition byScore_s :: "DownloadOption \<Rightarrow> DownloadOption \<Rightarrow> int" where
  "byScore_s a b = getScore_s (quality b) - getScore_s (quality a)"

definition normalize_s :: "DownloadOption list \<Rightarrow> DownloadOption list" where
  \<comment> \<open>remove duplicates, then sort\<close>
  "normalize_s options = js_sort byScore_s (uniqueOptions options)"

definition serverOptions :: "YtFormat list \<Rightarrow> DownloadOption list" where
  \<comment> \<open>the \<open>downloadOptions\<close> of the record the route answers with\<close>
  "serverOptions formats = normalize_s (extract_s formats)"

section \<open>Serverless function (handler of api/youtube-info, part_005)\<close>

datatype query = Absent | Single string | Many "string list"


text \<open>
  An answer is a status with no body, a status with an error text, or a status with a record.
  The error texts are written without the pictograph they start with in the source.
\<close>

datatype answer = Ended nat | Failed nat string | Info nat MediaInfo





definition instanceApi :: "string \<Rightarrow> string \<Rightarrow> request" where
  "instanceApi instance videoId =
     \<lparr>http_method = GET, target = instance @ ''/api/v1/videos/'' @ videoId, timeout = Some 5000\<rparr>"

definition hasFormatStreams :: "InvData \<Rightarrow> bool" where
  \<comment> \<open>\<open>data.formatStreams && data.formatStreams.length > 0\<close>\<close>
  "hasFormatStreams d = (orEmpty (inv_formatStreams d) \<noteq> [])"

fun instanceLoop :: "InvData service \<Rightarrow> string \<Rightarrow> string list \<Rightarrow> log \<Rightarrow> InvData option \<times> log" where
  \<comment> \<open>the loop over the instances: the value of \<open>videoData\<close> after it, and the log\<close>
  "instanceLoop net videoId [] lg = (None, lg)"
| "instanceLoop net videoId (i # is) lg =
     (case net (instanceApi i videoId) of
        Rejected e \<Rightarrow> instanceLoop net videoId is (lg @ [instanceApi i videoId])
      | Response ok statusText b \<Rightarrow>
          if ok then
            (case json b of
               Inr (Some d) \<Rightarrow>
                 if hasFormatStreams d then (Some d, lg @ [instanceApi i videoId])
                 else instanceLoop net videoId is (lg @ [instanceApi i videoId])
             | _ \<Rightarrow> instanceLoop net videoId is (lg @ [instanceApi i videoId]))
          else instanceLoop net videoId is (lg @ [instanceApi i videoId]))"








definition getScore_h :: "string \<Rightarrow> int" where
  "getScore_h q =
     (if str_includes q ''audio only'' then 0
      else case parseInt q of None \<Rightarrow> 1 | Some res \<Rightarrow> res)"

definition byScore_h :: "DownloadOption \<Rightarrow> DownloadOption \<Rightarrow> int" where
  "byScore_h a b = getScore_h (quality b) - getScore_h (quality a)"

definition normalize_h :: "DownloadOption list \<Rightarrow> DownloadOption list" where
  "normalize_h options = js_sort byScore_h (uniqueOptions options)"










section \<open>Entry point (App.tsx)\<close>

text \<open>
  \<open>handleFetch\<close> reads the address typed by the user and sets the error, the record, the
  summary and the loading flag.  The download service and the summary service it calls are
  parameters; both work on the log of network requests.
\<close>

record app =
  address :: string
  isLoading :: bool
  failure :: "string option"
  mediaInfo :: "MediaInfo option"
  aiSummary :: "string option"

type_synonym media_service = "string \<Rightarrow> Platform \<Rightarrow> log \<Rightarrow> (error + MediaInfo) \<times> log"

type_synonym summary_service = "string option \<Rightarrow> string option \<Rightarrow> log \<Rightarrow> string option \<times> log"

definition unsupportedText :: string where
  "unsupportedText =
     ''Unsupported platform or invalid URL. Please try a link from YouTube, TikTok, Instagram, etc.''"

definition handleFetch :: "media_service \<Rightarrow> summary_service \<Rightarrow> app \<Rightarrow> log \<Rightarrow> app \<times> log" where
  "handleFetch fetchMediaInfo generateSummary st lg =
     (if address st = [] then (st\<lparr>failure := Some ''Please enter a URL.''\<rparr>, lg)
      else
        case getPlatform (address st) of
          None \<Rightarrow>
            (st\<lparr>failure := Some unsupportedText, mediaInfo := None, aiSummary := None,
                isLoading := False\<rparr>, lg)
        | Some p \<Rightarrow>
            (case fetchMediaInfo (address st) p lg of
               (Inl e, lg') \<Rightarrow>
                 (st\<lparr>failure := Some (message e), mediaInfo := None, aiSummary := None,
                     isLoading := False\<rparr>, lg')
             | (Inr info, lg') \<Rightarrow>
                 (case generateSummary (title info) (description info) lg' of
                    (summary, lg'') \<Rightarrow>
                      (st\<lparr>failure := None, mediaInfo := Some info, aiSummary := summary,
                          isLoading := False\<rparr>, lg''))))"

section \<open>Outcome of one attempt on a mirror\<close>

definition failedGet :: "'a reply \<Rightarrow> bool" where
  \<comment> \<open>the request was rejected, answered with a status that is not ok, or its body did not parse\<close>
  "failedGet r =
     (case r of
        Rejected e \<Rightarrow> True
      | Response ok statusText b \<Rightarrow>
          if ok then (case b of Malformed \<Rightarrow> True | JsonNull \<Rightarrow> False | Json x \<Rightarrow> False) else True)"

definition failedProbe :: "'a reply \<Rightarrow> bool" where
  \<comment> \<open>the request was rejected or answered with a status that is not ok\<close>
  "failedProbe r = (case r of Rejected e \<Rightarrow> True | Response ok statusText b \<Rightarrow> if ok then False else True)"

section \<open>Sample inputs\<close>

definition unreachable :: "'a service" where
  "unreachable rq = Rejected (TypeError ''Failed to fetch'')"

definition offline :: world where
  "offline = \<lparr>invidious = unreachable, tikwm = unreachable, vxtwitter = unreachable,
              ddinstagram = unreachable, fbdownloader = unreachable, pinloader = unreachable,
              oembed = unreachable\<rparr>"

definition noStream :: InvStream where
  "noStream = \<lparr>s_type = None, s_qualityLabel = None, s_height = None, s_url = None,
               s_contentLength = None, s_bitrate = None, s_container = None, s_size = None\<rparr>"

definition noData :: InvData where
  "noData = \<lparr>inv_title = None, inv_videoThumbnails = None, inv_author = None,
             inv_description = None, inv_lengthSeconds = None, inv_formatStreams = None,
             inv_adaptiveFormats = None\<rparr>"

definition mp4Stream :: "string \<Rightarrow> string \<Rightarrow> InvStream" where
  "mp4Stream label link =
     noStream\<lparr>s_type := Some ''video/mp4; codecs=avc1'', s_qualityLabel := Some label,
               s_url := Some link\<rparr>"


definition sixtyFrames :: InvData where
  \<comment> \<open>a video offered in 720p and in 1080p at sixty frames\<close>
  "sixtyFrames =
     noData\<lparr>inv_title := Some ''Clip'',
             inv_adaptiveFormats := Some [mp4Stream ''720p'' ''https://cdn/720'',
                                          mp4Stream ''1080p60'' ''https://cdn/1080p60'']\<rparr>"

definition secondMirrorOnly :: "InvData service" where
  \<comment> \<open>only \<open>y.com.sb\<close>, the second mirror of the first draft, answers\<close>
  "secondMirrorOnly rq =
     (if startsWith (target rq) ''https://y.com.sb/'' then Response True ''OK'' (Json sixtyFrames)
      else Rejected (TypeError ''Failed to fetch''))"

definition nullFirst :: "InvData service" where
  \<comment> \<open>the first mirror of the first draft answers \<open>null\<close>, every other mirror answers with the video\<close>
  "nullFirst rq =
     (if startsWith (target rq) ''https://invidious.snopyta.org/'' then Response True ''OK'' JsonNull
      else Response True ''OK'' (Json sixtyFrames))"

definition fiveMiB :: InvStream where
  "fiveMiB = (mp4Stream ''720p'' ''https://cdn/720'')\<lparr>s_contentLength := Some 5242880\<rparr>"

definition muxed :: "string \<Rightarrow> string \<Rightarrow> YtFormat" where
  "muxed label link =
     \<lparr>hasVideo = True, hasAudio = True, container = ''mp4'', qualityLabel = Some label,
      f_url = link, contentLength = None, audioBitrate = Some 96\<rparr>"




definition tiktokWorld :: world where
  "tiktokWorld =
     offline\<lparr>tikwm := (\<lambda>rq. Response True ''OK''
        (Json \<lparr>tik_code = Some 0, tik_msg = None,
               tik_data = Some \<lparr>hdplay = Some ''https://cdn/hd.mp4'', play = None, wmplay = None,
                 tik_size = None, music = None, tik_title = Some ''Dance'', cover = None,
                 tik_duration = None, tik_author = None\<rparr>\<rparr>))\<rparr>"

definition tiktokPlatform :: Platform where
  \<comment> \<open>the second entry of the table\<close>
  "tiktokPlatform = snd (PLATFORMS ! 1)"

definition idle :: "string \<Rightarrow> app" where
  \<comment> \<open>the application before a fetch, with the given text in the address field\<close>
  "idle u = \<lparr>address = u, isLoading = False, failure = None, mediaInfo = None, aiSummary = None\<rparr>"

definition noMedia :: media_service where
  "noMedia u p lg = (Inl (Error ''unavailable''), lg)"

definition noSummary :: summary_service where
  "noSummary t d lg = (None, lg)"



definition twice360 :: "YtFormat list" where
  \<comment> \<open>two formats with video and audio and the same label\<close>
  "twice360 = [muxed ''360p'' ''https://cdn/first'', muxed ''360p'' ''https://cdn/second'']"

definition labels :: "error + MediaInfo \<Rightarrow> string list option" where
  \<comment> \<open>the quality labels of a resolved record, in the order of its options\<close>
  "labels r = (case r of Inl e \<Rightarrow> None | Inr info \<Rightarrow> Some (map quality (downloadOptions info)))"

definition tiktokAddress :: string where
  "tiktokAddress = ''https://www.tiktok.com/@ann/video/123''"

definition tiktokRecord :: MediaInfo where
  \<comment> \<open>what both drafts resolve \<open>tiktokAddress\<close> to in \<open>tiktokWorld\<close>\<close>
  "tiktokRecord =
     \<lparr>title = Some ''Dance'', thumbnail = None, duration = Some ''00:00'', author = Some ''Unknown'',
      platform = TikTok, url = Some tiktokAddress, description = Some ''Dance'',
      downloadOptions = [\<lparr>quality = ''HD Video'', format = ''mp4'', dl_url = Some ''https://cdn/hd.mp4'',
                           dl_size = None\<rparr>]\<rparr>"


section \<open>Facts about sorting, first elements and maps\<close>

lemma insertBy_insort_key:
  assumes "\<And>a b. (cmp a b \<le> 0) = (k a \<le> k b)"
  shows "insertBy cmp x ys = insort_key k x ys"
  by (induction ys) (simp_all add: assms)

lemma js_sort_Cons: "js_sort cmp (x # xs) = insertBy cmp x (js_sort cmp xs)"
  by (simp add: js_sort_def)

lemma js_sort_Nil: "js_sort cmp [] = []"
  by (simp add: js_sort_def)

lemma js_sort_sort_key:
  assumes "\<And>a b. (cmp a b \<le> 0) = (k a \<le> k b)"
  shows "js_sort cmp xs = sort_key k xs"
  by (induction xs) (simp_all add: js_sort_Nil js_sort_Cons insertBy_insort_key [OF assms])

lemma insertBy_not_Nil: "insertBy cmp x ys \<noteq> []"
  by (cases ys) simp_all

lemma js_sort_eq_Nil: "(js_sort cmp xs = []) = (xs = [])"
  by (cases xs) (simp_all add: js_sort_Nil js_sort_Cons insertBy_not_Nil)

lemma set_insertBy: "set (insertBy cmp x ys) = insert x (set ys)"
  by (induction ys) auto

lemma set_js_sort: "set (js_sort cmp xs) = set xs"
  by (induction xs) (simp_all add: js_sort_Nil js_sort_Cons set_insertBy)

lemma mset_insertBy: "mset (insertBy cmp x ys) = add_mset x (mset ys)"
  by (induction ys) simp_all

lemma mset_js_sort: "mset (js_sort cmp xs) = mset xs"
  by (induction xs) (simp_all add: js_sort_Nil js_sort_Cons mset_insertBy)

lemma distinct_keys_insertBy:
  "distinct (map k (insertBy cmp x ys)) = (k x \<notin> k ` set ys \<and> distinct (map k ys))"
  by (induction ys) (auto simp: set_insertBy)

lemma distinct_keys_js_sort: "distinct (map k (js_sort cmp xs)) = distinct (map k xs)"
  by (induction xs) (simp_all add: js_sort_Nil js_sort_Cons distinct_keys_insertBy set_js_sort)

lemma js_sort_twice:
  fixes k :: "'a \<Rightarrow> 'b::linorder"
  assumes "\<And>a b. (cmp a b \<le> 0) = (k a \<le> k b)"
  shows "js_sort cmp (js_sort cmp xs) = js_sort cmp xs"
  by (simp add: js_sort_sort_key [OF assms] sort_key_id_if_sorted sorted_sort_key)



lemma keys_mapSet_old: "k \<in> fst ` set m \<Longrightarrow> map fst (mapSet m k v) = map fst m"
proof (induction m)
  case Nil
  then show ?case by simp
next
  case (Cons e m)
  obtain k' v' where e: "e = (k', v')" by (cases e)
  show ?case
  proof (cases "k' = k")
    case True
    then show ?thesis by (simp add: e)
  next
    case False
    with Cons.prems have "k \<in> fst ` set m" by (auto simp: e)
    with Cons.IH False show ?thesis by (simp add: e)
  qed
qed

lemma keys_mapSet_new: "k \<notin> fst ` set m \<Longrightarrow> map fst (mapSet m k v) = map fst m @ [k]"
  by (induction m) auto

lemma mapSet_fresh: "k \<notin> fst ` set m \<Longrightarrow> mapSet m k v = m @ [(k, v)]"
  by (induction m) auto

lemma distinct_keys_mapSet: "distinct (map fst m) \<Longrightarrow> distinct (map fst (mapSet m k v))"
  by (cases "k \<in> fst ` set m") (simp_all add: keys_mapSet_old keys_mapSet_new)

lemma keyed_mapSet:
  "\<forall>e\<in>set m. fst e = key (snd e) \<Longrightarrow> e \<in> set (mapSet m (key v) v) \<Longrightarrow> fst e = key (snd e)"
  by (induction m) (auto split: if_splits)

lemma distinct_keys_fold:
  "distinct (map fst m) \<Longrightarrow> distinct (map fst (foldl (\<lambda>m (k, v). mapSet m k v) m es))"
proof (induction es arbitrary: m)
  case Nil
  then show ?case by simp
next
  case (Cons e es)
  obtain k v where e: "e = (k, v)" by (cases e)
  from Cons.prems have "distinct (map fst (mapSet m k v))" by (rule distinct_keys_mapSet)
  from Cons.IH [OF this] show ?case by (simp add: e)
qed

lemma keyed_fold:
  "\<forall>e\<in>set m. fst e = key (snd e) \<Longrightarrow>
   \<forall>e\<in>set (foldl (\<lambda>m (k, v). mapSet m k v) m (map (\<lambda>x. (key x, x)) xs)). fst e = key (snd e)"
proof (induction xs arbitrary: m)
  case Nil
  then show ?case by simp
next
  case (Cons x xs)
  have "\<forall>e\<in>set (mapSet m (key x) x). fst e = key (snd e)"
  proof
    fix e assume "e \<in> set (mapSet m (key x) x)"
    with Cons.prems show "fst e = key (snd e)" by (rule keyed_mapSet)
  qed
  from Cons.IH [OF this] show ?case by simp
qed

lemma fresh_fold:
  "distinct (map fst (m @ es)) \<Longrightarrow> foldl (\<lambda>m (k, v). mapSet m k v) m es = m @ es"
proof (induction es arbitrary: m)
  case Nil
  then show ?case by simp
next
  case (Cons e es)
  obtain k v where e: "e = (k, v)" by (cases e)
  from Cons.prems have "k \<notin> fst ` set m" by (auto simp: e)
  then have step: "mapSet m k v = m @ [(k, v)]" by (rule mapSet_fresh)
  from Cons.prems have "distinct (map fst ((m @ [(k, v)]) @ es))" by (simp add: e)
  from Cons.IH [OF this] show ?case by (simp add: e step)
qed

lemma keys_uniqueOptions:
  "map quality (uniqueOptions xs) = map fst (newMap (map (\<lambda>item. (quality item, item)) xs))"
proof -
  have "\<forall>e\<in>set (foldl (\<lambda>m (k, v). mapSet m k v) [] (map (\<lambda>item. (quality item, item)) xs)).
          fst e = quality (snd e)"
    by (rule keyed_fold) simp
  then show ?thesis by (simp add: uniqueOptions_def mapValues_def newMap_def)
qed

lemma distinct_uniqueOptions: "distinct (map quality (uniqueOptions xs))"
  by (simp add: keys_uniqueOptions newMap_def distinct_keys_fold)

lemma uniqueOptions_distinct:
  assumes "distinct (map quality xs)"
  shows "uniqueOptions xs = xs"
proof -
  have "distinct (map fst ([] @ map (\<lambda>item. (quality item, item)) xs))"
    using assms by (simp add: comp_def)
  from fresh_fold [OF this] show ?thesis
    by (simp add: uniqueOptions_def mapValues_def newMap_def comp_def)
qed

section \<open>Best audio stream\<close>







section \<open>Deduplication and ranking\<close>

lemma byScore_s_order:
  "(byScore_s a b \<le> 0) = (- getScore_s (quality a) \<le> - getScore_s (quality b))"
  by (simp add: byScore_s_def)

lemma byScore_h_order:
  "(byScore_h a b \<le> 0) = (- getScore_h (quality a) \<le> - getScore_h (quality b))"
  by (simp add: byScore_h_def)

lemma byOrder_b_order: "(byOrder_b a b \<le> 0) = (place_b (quality a) \<le> place_b (quality b))"
  by (simp add: byOrder_b_def)

lemma map_of_mapSet: "map_of (mapSet m k v) = (map_of m)(k \<mapsto> v)"
  by (induction m) (auto simp: fun_upd_twist)

lemma map_of_fold:
  "map_of (foldl (\<lambda>m (k, v). mapSet m k v) m es) = map_of (rev es @ m)"
proof (induction es arbitrary: m)
  case Nil
  then show ?case by simp
next
  case (Cons e es)
  obtain k v where e: "e = (k, v)" by (cases e)
  have "map_of (foldl (\<lambda>m (k, v). mapSet m k v) (mapSet m k v) es) = map_of (rev es @ mapSet m k v)"
    by (rule Cons.IH)
  also have "\<dots> = map_of (rev es @ (k, v) # m)"
    by (simp add: map_of_append map_of_mapSet)
  finally show ?case by (simp add: e)
qed

lemma entries_uniqueOptions:
  "newMap (map (\<lambda>item. (quality item, item)) xs)
     = map (\<lambda>item. (quality item, item)) (uniqueOptions xs)"
proof -
  have "\<forall>e\<in>set (foldl (\<lambda>m (k, v). mapSet m k v) [] (map (\<lambda>item. (quality item, item)) xs)).
          fst e = quality (snd e)"
    by (rule keyed_fold) simp
  then have "\<forall>e\<in>set (newMap (map (\<lambda>item. (quality item, item)) xs)). e = (quality (snd e), snd e)"
    by (simp add: newMap_def prod_eq_iff)
  then have "map (\<lambda>e. (quality (snd e), snd e)) (newMap (map (\<lambda>item. (quality item, item)) xs))
               = newMap (map (\<lambda>item. (quality item, item)) xs)"
    by (simp add: map_idI)
  then show ?thesis by (simp add: uniqueOptions_def mapValues_def comp_def)
qed

lemma uniqueOptions_keeps_last:
  "map_of (map (\<lambda>item. (quality item, item)) (uniqueOptions xs))
     = map_of (rev (map (\<lambda>item. (quality item, item)) xs))"
proof -
  have "map_of (newMap (map (\<lambda>item. (quality item, item)) xs))
          = map_of (rev (map (\<lambda>item. (quality item, item)) xs))"
    by (simp add: newMap_def map_of_fold)
  then show ?thesis by (simp add: entries_uniqueOptions)
qed

text \<open>
  C5.  The backend and the serverless function remove duplicate labels with
  \<open>new Map(downloadOptions.map(item => [item.quality, item]))\<close>.  A key that is set again keeps
  its place and takes the new value, so of two options with one label the later one is kept:
  for two formats labelled 360p, the option of the result points to the second address.
\<close>

theorem duplicate_label_keeps_the_later_option:
  "map dl_url (extract_s twice360) = [Some ''https://cdn/first'', Some ''https://cdn/second'']
   \<and> map quality (extract_s twice360) = [''360p'', ''360p'']
   \<and> map dl_url (uniqueOptions (extract_s twice360)) = [Some ''https://cdn/second'']
   \<and> map dl_url (serverOptions twice360) = [Some ''https://cdn/second'']"
  by code_simp

text \<open>
  C6.  Removing duplicates and ranking, applied to its own result, changes nothing: the result
  has one option for each label, so no option is removed again, and it is already in the order
  of the scores, which the stable sort leaves as it is.  This holds for the backend
  (\<open>normalize_s\<close>) and for the serverless function (\<open>normalize_h\<close>).
\<close>

theorem normalize_idempotent:
  "normalize_s (normalize_s options) = normalize_s options
   \<and> normalize_h (normalize_h options) = normalize_h options"
proof
  have "distinct (map quality (js_sort byScore_s (uniqueOptions options)))"
    by (simp add: distinct_keys_js_sort distinct_uniqueOptions)
  then have "uniqueOptions (js_sort byScore_s (uniqueOptions options))
               = js_sort byScore_s (uniqueOptions options)"
    by (rule uniqueOptions_distinct)
  then show "normalize_s (normalize_s options) = normalize_s options"
    by (simp add: normalize_s_def js_sort_twice [of byScore_s, OF byScore_s_order])
next
  have "distinct (map quality (js_sort byScore_h (uniqueOptions options)))"
    by (simp add: distinct_keys_js_sort distinct_uniqueOptions)
  then have "uniqueOptions (js_sort byScore_h (uniqueOptions options))
               = js_sort byScore_h (uniqueOptions options)"
    by (rule uniqueOptions_distinct)
  then show "normalize_h (normalize_h options) = normalize_h options"
    by (simp add: normalize_h_def js_sort_twice [of byScore_h, OF byScore_h_order])
qed

section \<open>Quality order\<close>

lemma indexFrom_absent: "x \<notin> set xs \<Longrightarrow> indexFrom i xs x = - 1"
  by (induction xs arbitrary: i) auto

lemma indexFrom_present:
  "x \<in> set xs \<Longrightarrow> i \<le> indexFrom i xs x \<and> indexFrom i xs x < i + int (length xs)"
proof (induction xs arbitrary: i)
  case Nil
  then show ?case by simp
next
  case (Cons y ys)
  show ?case
  proof (cases "y = x")
    case True
    then show ?thesis by simp
  next
    case False
    with Cons.prems have "x \<in> set ys" by simp
    from Cons.IH [OF this, of "i + 1"] False show ?thesis by simp
  qed
qed

lemma place_b_unknown: "q \<notin> set qualityOrder \<Longrightarrow> place_b q = 999"
  by (simp add: place_b_def indexOf_def indexFrom_absent)

lemma place_b_known: "q \<in> set qualityOrder \<Longrightarrow> 0 \<le> place_b q \<and> place_b q < 9"
proof -
  assume "q \<in> set qualityOrder"
  from indexFrom_present [OF this, of 0]
  have "0 \<le> indexOf qualityOrder q \<and> indexOf qualityOrder q < 9"
    by (simp add: indexOf_def qualityOrder_def)
  then show ?thesis by (simp add: place_b_def)
qed

lemma rank_b_sort_key: "rank_b options = sort_key (\<lambda>item. place_b (quality item)) options"
  unfolding rank_b_def by (rule js_sort_sort_key) (rule byOrder_b_order)

lemma rank_b_ranked:
  "mset (rank_b options) = mset options
   \<and> sorted (map (\<lambda>item. place_b (quality item)) (rank_b options))
   \<and> filter (\<lambda>item. place_b (quality item) = r) (rank_b options)
       = filter (\<lambda>item. place_b (quality item) = r) options
   \<and> filter (\<lambda>item. quality item \<notin> set qualityOrder) (rank_b options)
       = filter (\<lambda>item. quality item \<notin> set qualityOrder) options"
proof (intro conjI)
  show "mset (rank_b options) = mset options"
    by (simp add: rank_b_def mset_js_sort)
  show "sorted (map (\<lambda>item. place_b (quality item)) (rank_b options))"
    by (simp add: rank_b_sort_key sorted_sort_key)
  show stable: "filter (\<lambda>item. place_b (quality item) = r) (rank_b options)
       = filter (\<lambda>item. place_b (quality item) = r) options" for r
    by (simp add: rank_b_sort_key sort_key_stable)
  have unknown: "(\<lambda>item. quality item \<notin> set qualityOrder) = (\<lambda>item. place_b (quality item) = 999)"
  proof (rule ext)
    fix item :: "'a DownloadOption_scheme"
    show "(quality item \<notin> set qualityOrder) = (place_b (quality item) = 999)"
      using place_b_unknown [of "quality item"] place_b_known [of "quality item"] by auto
  qed
  show "filter (\<lambda>item. quality item \<notin> set qualityOrder) (rank_b options)
       = filter (\<lambda>item. quality item \<notin> set qualityOrder) options"
    unfolding unknown by (rule stable)
qed

text \<open>
  C3.  The second draft (\<open>rank_b\<close>) ranks as the claim says, see \<open>rank_b_ranked\<close>: it replaces the
  \<open>-1\<close> of \<open>indexOf\<close> by \<open>999\<close>.  The first draft (\<open>rank_a\<close>) sorts by \<open>indexOf\<close> itself, so a label
  that is not in the table has the lowest key and comes first: for a video offered as 720p and
  as 1080p60, resolved through the second mirror, the record lists 1080p60 before 720p.
\<close>

theorem unknown_label_ranked_first:
  "map quality (extract_a sixtyFrames) = [''720p'', ''1080p60'']
   \<and> map quality (rank_a (extract_a sixtyFrames)) = [''1080p60'', ''720p'']
   \<and> labels (fst (fetchYouTubeInfo_a secondMirrorOnly ''https://youtu.be/abc12345678'' []))
       = Some [''1080p60'', ''720p'']
   \<and> map quality (rank_b (extract_b sixtyFrames)) = [''720p'', ''1080p60'']"
  by code_simp

section \<open>Mirror loops\<close>

lemma mirrorLoop_a_exhausted:
  "\<forall>b\<in>set ms. failedGet (net (videoApi_a b v)) \<Longrightarrow>
   mirrorLoop_a net v ms lg = (None, lg @ map (\<lambda>b. videoApi_a b v) ms)"
proof (induction ms arbitrary: lg)
  case Nil
  then show ?case by simp
next
  case (Cons m ms)
  from Cons.prems have m: "failedGet (net (videoApi_a m v))" by simp
  from Cons.prems have rest: "\<forall>b\<in>set ms. failedGet (net (videoApi_a b v))" by simp
  from m have "mirrorLoop_a net v (m # ms) lg = mirrorLoop_a net v ms (lg @ [videoApi_a m v])"
    by (auto simp: failedGet_def json_def split: reply.splits body.splits if_splits)
  with Cons.IH [OF rest] show ?case by simp
qed

lemma mirrorLoop_a_first_success:
  "k < length ms \<Longrightarrow> \<forall>j<k. failedGet (net (videoApi_a (ms ! j) v)) \<Longrightarrow>
   net (videoApi_a (ms ! k) v) = Response True st (Json d) \<Longrightarrow>
   mirrorLoop_a net v ms lg = (Some d, lg @ map (\<lambda>b. videoApi_a b v) (take (Suc k) ms))"
proof (induction ms arbitrary: k lg)
  case Nil
  then show ?case by simp
next
  case (Cons m ms)
  show ?case
  proof (cases k)
    case 0
    with Cons.prems(3) show ?thesis by (simp add: json_def)
  next
    case (Suc k')
    from Cons.prems(2) Suc have m: "failedGet (net (videoApi_a m v))" by auto
    from Cons.prems(1) Suc have len: "k' < length ms" by simp
    from Cons.prems(2) Suc have rest: "\<forall>j<k'. failedGet (net (videoApi_a (ms ! j) v))" by auto
    from Cons.prems(3) Suc have ok: "net (videoApi_a (ms ! k') v) = Response True st (Json d)" by simp
    from m have "mirrorLoop_a net v (m # ms) lg = mirrorLoop_a net v ms (lg @ [videoApi_a m v])"
      by (auto simp: failedGet_def json_def split: reply.splits body.splits if_splits)
    with Cons.IH [OF len rest ok] show ?thesis by (simp add: Suc)
  qed
qed

lemma probeLoop_exhausted:
  "\<forall>b\<in>set ms. failedProbe (net (probe (b @ path))) \<Longrightarrow>
   probeLoop net path ms lg
     = (Inl (Error ''All Invidious mirrors are down''), lg @ map (\<lambda>b. probe (b @ path)) ms)"
proof (induction ms arbitrary: lg)
  case Nil
  then show ?case by simp
next
  case (Cons m ms)
  from Cons.prems have m: "failedProbe (net (probe (m @ path)))" by simp
  from Cons.prems have rest: "\<forall>b\<in>set ms. failedProbe (net (probe (b @ path)))" by simp
  from m have "probeLoop net path (m # ms) lg = probeLoop net path ms (lg @ [probe (m @ path)])"
    by (auto simp: failedProbe_def split: reply.splits if_splits)
  with Cons.IH [OF rest] show ?case by simp
qed

lemma probeLoop_first_success:
  "k < length ms \<Longrightarrow> \<forall>j<k. failedProbe (net (probe (ms ! j @ path))) \<Longrightarrow>
   net (probe (ms ! k @ path)) = Response True st b \<Longrightarrow>
   probeLoop net path ms lg = (Inr (ms ! k @ path), lg @ map (\<lambda>b. probe (b @ path)) (take (Suc k) ms))"
proof (induction ms arbitrary: k lg)
  case Nil
  then show ?case by simp
next
  case (Cons m ms)
  show ?case
  proof (cases k)
    case 0
    with Cons.prems(3) show ?thesis by simp
  next
    case (Suc k')
    from Cons.prems(2) Suc have m: "failedProbe (net (probe (m @ path)))" by auto
    from Cons.prems(1) Suc have len: "k' < length ms" by simp
    from Cons.prems(2) Suc have rest: "\<forall>j<k'. failedProbe (net (probe (ms ! j @ path)))" by auto
    from Cons.prems(3) Suc have ok: "net (probe (ms ! k' @ path)) = Response True st b" by simp
    from m have "probeLoop net path (m # ms) lg = probeLoop net path ms (lg @ [probe (m @ path)])"
      by (auto simp: failedProbe_def split: reply.splits if_splits)
    with Cons.IH [OF len rest ok] show ?thesis by (simp add: Suc)
  qed
qed

lemma all_nth_set: "(\<forall>j<length ms. P (ms ! j)) = (\<forall>b\<in>set ms. P b)"
  by (simp add: all_set_conv_all_nth)

text \<open>
  C4, as amended.  Both mirror loops try the endpoints in the order of the list, one request
  with a timeout each, and stop at the first success.  Positions count from zero here: when the
  endpoints before position \<open>k\<close> fail and the one at \<open>k\<close> succeeds, the requests made are those to
  the first \<open>k + 1\<close> endpoints, in order, and the value of the loop comes from the endpoint at
  \<open>k\<close>: its parsed body in the inline loop of the first draft, and in \<open>getInvidiousUrl\<close> of the
  second draft its address, which the resolver then fetches; the answer to the probe itself is
  dropped.  When every endpoint fails, one request is made to each endpoint and the result is
  the error for exhausted mirrors.  An attempt fails when the request is rejected (connection
  error, timeout), when the status is not ok, or, in the inline loop, when the body does not
  parse.  An attempt succeeds when the status is ok and, in the inline loop, the body is an
  object.
\<close>

theorem mirrors_tried_in_order_until_first_success:
  "(k < length ms \<and> (\<forall>j<k. failedGet (net (videoApi_a (ms ! j) v)))
      \<and> net (videoApi_a (ms ! k) v) = Response True st (Json d)
      \<longrightarrow> mirrorLoop_a net v ms lg = (Some d, lg @ map (\<lambda>b. videoApi_a b v) (take (Suc k) ms)))
   \<and> ((\<forall>j<length ms. failedGet (net (videoApi_a (ms ! j) v)))
      \<longrightarrow> mirrorLoop_a net v ms lg = (None, lg @ map (\<lambda>b. videoApi_a b v) ms))
   \<and> (getYoutubeVideoId_a u = Some v \<and> k < length INV_MIRRORS_a
      \<and> (\<forall>j<k. failedGet (net (videoApi_a (INV_MIRRORS_a ! j) v)))
      \<and> net (videoApi_a (INV_MIRRORS_a ! k) v) = Response True st (Json d)
      \<longrightarrow> fetchYouTubeInfo_a net u lg
           = (youtubeInfo_a v d, lg @ map (\<lambda>b. videoApi_a b v) (take (Suc k) INV_MIRRORS_a)))
   \<and> (getYoutubeVideoId_a u = Some v
      \<and> (\<forall>j<length INV_MIRRORS_a. failedGet (net (videoApi_a (INV_MIRRORS_a ! j) v)))
      \<longrightarrow> fetchYouTubeInfo_a net u lg
           = (Inl (Error ''All YouTube mirrors failed. Try again later.''),
              lg @ map (\<lambda>b. videoApi_a b v) INV_MIRRORS_a))
   \<and> (k < length ms \<and> (\<forall>j<k. failedProbe (net (probe (ms ! j @ path))))
      \<and> net (probe (ms ! k @ path)) = Response True st body
      \<longrightarrow> probeLoop net path ms lg
           = (Inr (ms ! k @ path), lg @ map (\<lambda>b. probe (b @ path)) (take (Suc k) ms)))
   \<and> ((\<forall>j<length ms. failedProbe (net (probe (ms ! j @ path))))
      \<longrightarrow> probeLoop net path ms lg
           = (Inl (Error ''All Invidious mirrors are down''), lg @ map (\<lambda>b. probe (b @ path)) ms))
   \<and> (getYoutubeVideoId_b u = Some v \<and> k < length INV_MIRRORS_b
      \<and> (\<forall>j<k. failedProbe (net (probe (INV_MIRRORS_b ! j @ ''/api/v1/videos/'' @ v))))
      \<and> net (probe (INV_MIRRORS_b ! k @ ''/api/v1/videos/'' @ v)) = Response True st body
      \<longrightarrow> snd (fetchYouTubeInfo_b net u lg)
           = lg @ map (\<lambda>b. probe (b @ ''/api/v1/videos/'' @ v)) (take (Suc k) INV_MIRRORS_b)
               @ [get (INV_MIRRORS_b ! k @ ''/api/v1/videos/'' @ v)])
   \<and> (getYoutubeVideoId_b u = Some v
      \<and> (\<forall>j<length INV_MIRRORS_b. failedProbe (net (probe (INV_MIRRORS_b ! j @ ''/api/v1/videos/'' @ v))))
      \<longrightarrow> fetchYouTubeInfo_b net u lg
           = (Inl (Error ''All Invidious mirrors are down''),
              lg @ map (\<lambda>b. probe (b @ ''/api/v1/videos/'' @ v)) INV_MIRRORS_b))"
proof (intro conjI impI)
  assume "k < length ms \<and> (\<forall>j<k. failedGet (net (videoApi_a (ms ! j) v)))
      \<and> net (videoApi_a (ms ! k) v) = Response True st (Json d)"
  then show "mirrorLoop_a net v ms lg = (Some d, lg @ map (\<lambda>b. videoApi_a b v) (take (Suc k) ms))"
    by (intro mirrorLoop_a_first_success) simp_all
next
  assume "\<forall>j<length ms. failedGet (net (videoApi_a (ms ! j) v))"
  then have "\<forall>b\<in>set ms. failedGet (net (videoApi_a b v))"
    by (simp add: all_nth_set [of ms "\<lambda>b. failedGet (net (videoApi_a b v))"])
  then show "mirrorLoop_a net v ms lg = (None, lg @ map (\<lambda>b. videoApi_a b v) ms)"
    by (rule mirrorLoop_a_exhausted)
next
  assume a: "getYoutubeVideoId_a u = Some v \<and> k < length INV_MIRRORS_a
      \<and> (\<forall>j<k. failedGet (net (videoApi_a (INV_MIRRORS_a ! j) v)))
      \<and> net (videoApi_a (INV_MIRRORS_a ! k) v) = Response True st (Json d)"
  then have "mirrorLoop_a net v INV_MIRRORS_a lg
      = (Some d, lg @ map (\<lambda>b. videoApi_a b v) (take (Suc k) INV_MIRRORS_a))"
    by (intro mirrorLoop_a_first_success) simp_all
  with a show "fetchYouTubeInfo_a net u lg
           = (youtubeInfo_a v d, lg @ map (\<lambda>b. videoApi_a b v) (take (Suc k) INV_MIRRORS_a))"
    by (simp add: fetchYouTubeInfo_a_def)
next
  assume a: "getYoutubeVideoId_a u = Some v
      \<and> (\<forall>j<length INV_MIRRORS_a. failedGet (net (videoApi_a (INV_MIRRORS_a ! j) v)))"
  then have "\<forall>b\<in>set INV_MIRRORS_a. failedGet (net (videoApi_a b v))"
    by (simp add: all_nth_set [of INV_MIRRORS_a "\<lambda>b. failedGet (net (videoApi_a b v))"])
  then have "mirrorLoop_a net v INV_MIRRORS_a lg = (None, lg @ map (\<lambda>b. videoApi_a b v) INV_MIRRORS_a)"
    by (rule mirrorLoop_a_exhausted)
  with a show "fetchYouTubeInfo_a net u lg
           = (Inl (Error ''All YouTube mirrors failed. Try again later.''),
              lg @ map (\<lambda>b. videoApi_a b v) INV_MIRRORS_a)"
    by (simp add: fetchYouTubeInfo_a_def)
next
  assume "k < length ms \<and> (\<forall>j<k. failedProbe (net (probe (ms ! j @ path))))
      \<and> net (probe (ms ! k @ path)) = Response True st body"
  then show "probeLoop net path ms lg
           = (Inr (ms ! k @ path), lg @ map (\<lambda>b. probe (b @ path)) (take (Suc k) ms))"
    by (intro probeLoop_first_success) simp_all
next
  assume "\<forall>j<length ms. failedProbe (net (probe (ms ! j @ path)))"
  then have "\<forall>b\<in>set ms. failedProbe (net (probe (b @ path)))"
    by (simp add: all_nth_set [of ms "\<lambda>b. failedProbe (net (probe (b @ path)))"])
  then show "probeLoop net path ms lg
           = (Inl (Error ''All Invidious mirrors are down''), lg @ map (\<lambda>b. probe (b @ path)) ms)"
    by (rule probeLoop_exhausted)
next
  let ?path = "''/api/v1/videos/'' @ v"
  assume a: "getYoutubeVideoId_b u = Some v \<and> k < length INV_MIRRORS_b
      \<and> (\<forall>j<k. failedProbe (net (probe (INV_MIRRORS_b ! j @ ?path))))
      \<and> net (probe (INV_MIRRORS_b ! k @ ?path)) = Response True st body"
  then have len: "k < length INV_MIRRORS_b"
    and before: "\<forall>j<k. failedProbe (net (probe (INV_MIRRORS_b ! j @ ?path)))"
    and at: "net (probe (INV_MIRRORS_b ! k @ ?path)) = Response True st body"
    by blast+
  have "probeLoop net ?path INV_MIRRORS_b lg
      = (Inr (INV_MIRRORS_b ! k @ ?path), lg @ map (\<lambda>b. probe (b @ ?path)) (take (Suc k) INV_MIRRORS_b))"
    by (rule probeLoop_first_success [OF len before at])
  with a show "snd (fetchYouTubeInfo_b net u lg)
           = lg @ map (\<lambda>b. probe (b @ ?path)) (take (Suc k) INV_MIRRORS_b)
               @ [get (INV_MIRRORS_b ! k @ ?path)]"
    by (simp add: fetchYouTubeInfo_b_def getInvidiousUrl_def split: sum.splits)
next
  let ?path = "''/api/v1/videos/'' @ v"
  assume a: "getYoutubeVideoId_b u = Some v
      \<and> (\<forall>j<length INV_MIRRORS_b. failedProbe (net (probe (INV_MIRRORS_b ! j @ ?path))))"
  then have "\<forall>j<length INV_MIRRORS_b. failedProbe (net (probe (INV_MIRRORS_b ! j @ ?path)))"
    by (rule conjunct2)
  then have "\<forall>b\<in>set INV_MIRRORS_b. failedProbe (net (probe (b @ ?path)))"
    by (rule all_nth_set [where P = "\<lambda>b. failedProbe (net (probe (b @ ?path)))", THEN iffD1])
  then have "probeLoop net ?path INV_MIRRORS_b lg
      = (Inl (Error ''All Invidious mirrors are down''), lg @ map (\<lambda>b. probe (b @ ?path)) INV_MIRRORS_b)"
    by (rule probeLoop_exhausted)
  with a show "fetchYouTubeInfo_b net u lg
           = (Inl (Error ''All Invidious mirrors are down''),
              lg @ map (\<lambda>b. probe (b @ ?path)) INV_MIRRORS_b)"
    by (simp add: fetchYouTubeInfo_b_def getInvidiousUrl_def)
qed

lemma unreachable_failedGet: "failedGet (unreachable rq)"
  by (simp add: unreachable_def failedGet_def)

lemma unreachable_failedProbe: "failedProbe (unreachable rq)"
  by (simp add: unreachable_def failedProbe_def)

theorem mirrors_witness:
  "mirrorLoop_a secondMirrorOnly ''abc12345678'' INV_MIRRORS_a []
     = (Some sixtyFrames, map (\<lambda>b. videoApi_a b ''abc12345678'') (take 2 INV_MIRRORS_a))
   \<and> length (snd (mirrorLoop_a secondMirrorOnly ''abc12345678'' INV_MIRRORS_a [])) = 2
   \<and> mirrorLoop_a unreachable ''abc12345678'' INV_MIRRORS_a []
     = (None, map (\<lambda>b. videoApi_a b ''abc12345678'') INV_MIRRORS_a)
   \<and> length (snd (mirrorLoop_a unreachable ''abc12345678'' INV_MIRRORS_a [])) = 5
   \<and> fetchYouTubeInfo_a secondMirrorOnly ''https://youtu.be/abc12345678'' []
     = (youtubeInfo_a ''abc12345678'' sixtyFrames,
        map (\<lambda>b. videoApi_a b ''abc12345678'') (take 2 INV_MIRRORS_a))
   \<and> fetchYouTubeInfo_a unreachable ''https://youtu.be/abc12345678'' []
     = (Inl (Error ''All YouTube mirrors failed. Try again later.''),
        map (\<lambda>b. videoApi_a b ''abc12345678'') INV_MIRRORS_a)
   \<and> probeLoop secondMirrorOnly ''/api/v1/videos/abc12345678'' INV_MIRRORS_b []
     = (Inr ''https://y.com.sb/api/v1/videos/abc12345678'',
        map (\<lambda>b. probe (b @ ''/api/v1/videos/abc12345678'')) (take 3 INV_MIRRORS_b))
   \<and> probeLoop (unreachable :: InvData service) ''/api/v1/videos/abc12345678'' INV_MIRRORS_b []
     = (Inl (Error ''All Invidious mirrors are down''),
        map (\<lambda>b. probe (b @ ''/api/v1/videos/abc12345678'')) INV_MIRRORS_b)
   \<and> snd (fetchYouTubeInfo_b secondMirrorOnly ''https://youtu.be/abc12345678'' [])
     = map (\<lambda>b. probe (b @ ''/api/v1/videos/abc12345678'')) (take 3 INV_MIRRORS_b)
       @ [get ''https://y.com.sb/api/v1/videos/abc12345678'']
   \<and> fetchYouTubeInfo_b unreachable ''https://youtu.be/abc12345678'' []
     = (Inl (Error ''All Invidious mirrors are down''),
        map (\<lambda>b. probe (b @ ''/api/v1/videos/abc12345678'')) INV_MIRRORS_b)"
proof -
  let ?v = "''abc12345678''"
  let ?u = "''https://youtu.be/abc12345678''"
  let ?p = "''/api/v1/videos/abc12345678''"
  have id: "getYoutubeVideoId_a ?u = Some ?v" by code_simp
  have k: "(1::nat) < length INV_MIRRORS_a" by (simp add: INV_MIRRORS_a_def)
  have before: "\<forall>j<1. failedGet (secondMirrorOnly (videoApi_a (INV_MIRRORS_a ! j) ?v))"
    by (simp add: INV_MIRRORS_a_def secondMirrorOnly_def videoApi_a_def startsWith_def failedGet_def)
  have at: "secondMirrorOnly (videoApi_a (INV_MIRRORS_a ! 1) ?v) = Response True ''OK'' (Json sixtyFrames)"
    by (simp add: INV_MIRRORS_a_def secondMirrorOnly_def videoApi_a_def startsWith_def)
  have down: "\<forall>j<length INV_MIRRORS_a. failedGet (unreachable (videoApi_a (INV_MIRRORS_a ! j) ?v))"
    by (simp add: unreachable_failedGet)
  have k': "(2::nat) < length INV_MIRRORS_b" by (simp add: INV_MIRRORS_b_def)
  have before': "\<forall>j<2. failedProbe (secondMirrorOnly (probe (INV_MIRRORS_b ! j @ ?p)))"
    by (simp add: INV_MIRRORS_b_def secondMirrorOnly_def probe_def startsWith_def failedProbe_def
        less_Suc_eq numeral_2_eq_2)
  have at': "secondMirrorOnly (probe (INV_MIRRORS_b ! 2 @ ?p)) = Response True ''OK'' (Json sixtyFrames)"
    by (simp add: INV_MIRRORS_b_def secondMirrorOnly_def probe_def startsWith_def)
  have down': "\<forall>j<length INV_MIRRORS_b. failedProbe ((unreachable :: InvData service) (probe (INV_MIRRORS_b ! j @ ?p)))"
    by (simp add: unreachable_failedProbe)
  note claim = mirrors_tried_in_order_until_first_success
  have one: "mirrorLoop_a secondMirrorOnly ?v INV_MIRRORS_a []
     = (Some sixtyFrames, [] @ map (\<lambda>b. videoApi_a b ?v) (take (Suc 1) INV_MIRRORS_a))"
    using k before at by (intro claim [THEN conjunct1, THEN mp]) simp
  have none: "mirrorLoop_a unreachable ?v INV_MIRRORS_a []
     = (None, [] @ map (\<lambda>b. videoApi_a b ?v) INV_MIRRORS_a)"
    using down by (intro claim [THEN conjunct2, THEN conjunct1, THEN mp]) simp
  have res: "fetchYouTubeInfo_a secondMirrorOnly ?u []
     = (youtubeInfo_a ?v sixtyFrames, [] @ map (\<lambda>b. videoApi_a b ?v) (take (Suc 1) INV_MIRRORS_a))"
    using id k before at
    by (intro claim [THEN conjunct2, THEN conjunct2, THEN conjunct1, THEN mp]) simp
  have err: "fetchYouTubeInfo_a unreachable ?u []
     = (Inl (Error ''All YouTube mirrors failed. Try again later.''),
        [] @ map (\<lambda>b. videoApi_a b ?v) INV_MIRRORS_a)"
    using id down
    by (intro claim [THEN conjunct2, THEN conjunct2, THEN conjunct2, THEN conjunct1, THEN mp]) simp
  have pr: "probeLoop secondMirrorOnly ?p INV_MIRRORS_b []
     = (Inr (INV_MIRRORS_b ! 2 @ ?p), [] @ map (\<lambda>b. probe (b @ ?p)) (take (Suc 2) INV_MIRRORS_b))"
    using k' before' at'
    by (intro claim [THEN conjunct2, THEN conjunct2, THEN conjunct2, THEN conjunct2, THEN conjunct1, THEN mp])
      simp
  have pn: "probeLoop (unreachable :: InvData service) ?p INV_MIRRORS_b []
     = (Inl (Error ''All Invidious mirrors are down''), [] @ map (\<lambda>b. probe (b @ ?p)) INV_MIRRORS_b)"
    using down'
    by (intro claim [THEN conjunct2, THEN conjunct2, THEN conjunct2, THEN conjunct2, THEN conjunct2,
          THEN conjunct1, THEN mp])
      simp
  have id': "getYoutubeVideoId_b ?u = Some ?v" by code_simp
  have path: "''/api/v1/videos/'' @ ?v = ?p" by simp
  have rl: "snd (fetchYouTubeInfo_b secondMirrorOnly ?u [])
     = [] @ map (\<lambda>b. probe (b @ ''/api/v1/videos/'' @ ?v)) (take (Suc 2) INV_MIRRORS_b)
         @ [get (INV_MIRRORS_b ! 2 @ ''/api/v1/videos/'' @ ?v)]"
    using id' k' before' at' unfolding path [symmetric]
    by (intro claim [THEN conjunct2, THEN conjunct2, THEN conjunct2, THEN conjunct2, THEN conjunct2,
          THEN conjunct2, THEN conjunct1, THEN mp])
      simp
  have rn: "fetchYouTubeInfo_b unreachable ?u []
     = (Inl (Error ''All Invidious mirrors are down''),
        [] @ map (\<lambda>b. probe (b @ ''/api/v1/videos/'' @ ?v)) INV_MIRRORS_b)"
    using id' down' unfolding path [symmetric]
    by (intro claim [THEN conjunct2, THEN conjunct2, THEN conjunct2, THEN conjunct2, THEN conjunct2,
          THEN conjunct2, THEN conjunct2, THEN mp])
      simp
  have addr: "INV_MIRRORS_b ! 2 @ ?p = ''https://y.com.sb/api/v1/videos/abc12345678''"
    by (simp add: INV_MIRRORS_b_def)
  have two: "Suc 1 = 2" and three: "Suc 2 = 3" by simp_all
  have l2: "length (snd (mirrorLoop_a secondMirrorOnly ?v INV_MIRRORS_a [])) = 2"
    unfolding one by (simp add: INV_MIRRORS_a_def)
  have l5: "length (snd (mirrorLoop_a unreachable ?v INV_MIRRORS_a [])) = 5"
    unfolding none by (simp add: INV_MIRRORS_a_def)
  from one l2 none l5 res err pr pn rl rn show ?thesis
    by (simp only: two three addr path append_Nil simp_thms)
qed

text \<open>
  C4 as stated fails in both drafts.  In the first draft the first mirror answers with status ok
  and the body \<open>null\<close>: the loop stops there, and the resolver reports that all mirrors failed
  after this one request, although the second mirror answers with the video.  In the second
  draft only the third mirror answers the probe: what \<open>getInvidiousUrl\<close> returns after three
  probes is the address of that mirror, not the answer of the mirror.
\<close>

theorem null_answer_ends_the_search_and_probe_returns_address:
  "fetchYouTubeInfo_a nullFirst ''https://youtu.be/abc12345678'' []
     = (Inl (Error ''All YouTube mirrors failed. Try again later.''),
        [videoApi_a ''https://invidious.snopyta.org'' ''abc12345678''])
   \<and> nullFirst (videoApi_a ''https://invidious.snopyta.org'' ''abc12345678'')
     = Response True ''OK'' JsonNull
   \<and> nullFirst (videoApi_a ''https://y.com.sb'' ''abc12345678'')
     = Response True ''OK'' (Json sixtyFrames)
   \<and> getInvidiousUrl secondMirrorOnly ''/api/v1/videos/abc12345678'' []
     = (Inr ''https://y.com.sb/api/v1/videos/abc12345678'',
        [probe ''https://invidious.io.lol/api/v1/videos/abc12345678'',
         probe ''https://invidious.snopyta.org/api/v1/videos/abc12345678'',
         probe ''https://y.com.sb/api/v1/videos/abc12345678''])
   \<and> secondMirrorOnly (probe ''https://y.com.sb/api/v1/videos/abc12345678'')
     = Response True ''OK'' (Json sixtyFrames)"
proof -
  have id: "getYoutubeVideoId_a ''https://youtu.be/abc12345678'' = Some ''abc12345678''"
    by code_simp
  have first: "nullFirst (videoApi_a ''https://invidious.snopyta.org'' ''abc12345678'')
      = Response True ''OK'' JsonNull"
    by (simp add: nullFirst_def videoApi_a_def startsWith_def)
  have second: "nullFirst (videoApi_a ''https://y.com.sb'' ''abc12345678'')
      = Response True ''OK'' (Json sixtyFrames)"
    by (simp add: nullFirst_def videoApi_a_def startsWith_def)
  have "mirrorLoop_a nullFirst ''abc12345678'' INV_MIRRORS_a []
      = (None, [videoApi_a ''https://invidious.snopyta.org'' ''abc12345678''])"
    by (simp add: INV_MIRRORS_a_def first json_def)
  with id have stop: "fetchYouTubeInfo_a nullFirst ''https://youtu.be/abc12345678'' []
      = (Inl (Error ''All YouTube mirrors failed. Try again later.''),
         [videoApi_a ''https://invidious.snopyta.org'' ''abc12345678''])"
    by (simp add: fetchYouTubeInfo_a_def)
  have answer: "secondMirrorOnly (probe ''https://y.com.sb/api/v1/videos/abc12345678'')
      = Response True ''OK'' (Json sixtyFrames)"
    by (simp add: secondMirrorOnly_def probe_def startsWith_def)
  have "secondMirrorOnly (probe ''https://invidious.io.lol/api/v1/videos/abc12345678'')
      = Rejected (TypeError ''Failed to fetch'')"
    and "secondMirrorOnly (probe ''https://invidious.snopyta.org/api/v1/videos/abc12345678'')
      = Rejected (TypeError ''Failed to fetch'')"
    by (simp_all add: secondMirrorOnly_def probe_def startsWith_def)
  with answer have address: "getInvidiousUrl secondMirrorOnly ''/api/v1/videos/abc12345678'' []
     = (Inr ''https://y.com.sb/api/v1/videos/abc12345678'',
        [probe ''https://invidious.io.lol/api/v1/videos/abc12345678'',
         probe ''https://invidious.snopyta.org/api/v1/videos/abc12345678'',
         probe ''https://y.com.sb/api/v1/videos/abc12345678''])"
    by (simp add: getInvidiousUrl_def INV_MIRRORS_b_def)
  from stop first second address answer show ?thesis by (intro conjI)
qed

text \<open>
  In general, an answer with status ok whose body is \<open>null\<close> ends the inline loop of the first
  draft with no data, whatever the mirrors after it would answer.  The loop of the serverless
  function moves on to the next instance in that case.
\<close>

lemma null_body_ends_the_loop:
  "net (videoApi_a m v) = Response True st JsonNull \<Longrightarrow>
   mirrorLoop_a net v (m # ms) lg = (None, lg @ [videoApi_a m v])"
  by (simp add: json_def)

lemma null_body_sample:
  "nullFirst (videoApi_a ''https://invidious.snopyta.org'' ''abc12345678'') = Response True ''OK'' JsonNull
   \<and> mirrorLoop_a nullFirst ''abc12345678'' [''https://invidious.snopyta.org'', ''https://y.com.sb''] []
     = (None, [videoApi_a ''https://invidious.snopyta.org'' ''abc12345678''])"
proof -
  have first: "nullFirst (videoApi_a ''https://invidious.snopyta.org'' ''abc12345678'')
      = Response True ''OK'' JsonNull"
    by (simp add: nullFirst_def videoApi_a_def startsWith_def)
  from first have "mirrorLoop_a nullFirst ''abc12345678''
        (''https://invidious.snopyta.org'' # [''https://y.com.sb'']) []
      = (None, [] @ [videoApi_a ''https://invidious.snopyta.org'' ''abc12345678''])"
    by (rule null_body_ends_the_loop)
  with first show ?thesis by simp
qed

lemma null_body_skipped_by_instanceLoop:
  "net (instanceApi i v) = Response True st JsonNull \<Longrightarrow>
   instanceLoop net v (i # is) lg = instanceLoop net v is (lg @ [instanceApi i v])"
  by (simp add: json_def)

section \<open>Detector and entry point\<close>

lemma firstMatching_find: "firstMatching ps u = List.find (\<lambda>p. test (regex p) u) ps"
  by (induction ps) simp_all

text \<open>
  C7.  \<open>getPlatform\<close> is a function of the address and the table alone.  It goes through the
  table in the order in which the entries are written (YouTube, TikTok, Instagram, Twitter,
  Facebook, LinkedIn, Pinterest) and returns the first entry whose pattern matches: the entry
  at a position \<open>i\<close> such that no entry before \<open>i\<close> matches.  It returns \<open>null\<close> exactly when no
  pattern matches.
\<close>

theorem detector_returns_first_match:
  "getPlatform u = List.find (\<lambda>p. test (regex p) u) (Object_values PLATFORMS)
   \<and> map name (Object_values PLATFORMS)
       = [YouTube, TikTok, Instagram, Twitter, Facebook, LinkedIn, Pinterest]
   \<and> (getPlatform u = None) = (\<forall>p\<in>set (Object_values PLATFORMS). \<not> test (regex p) u)
   \<and> (getPlatform u = Some p) =
       (\<exists>i<length (Object_values PLATFORMS). Object_values PLATFORMS ! i = p \<and> test (regex p) u
          \<and> (\<forall>j<i. \<not> test (regex (Object_values PLATFORMS ! j)) u))"
proof (intro conjI)
  show f: "getPlatform u = List.find (\<lambda>p. test (regex p) u) (Object_values PLATFORMS)"
    by (simp add: getPlatform_def firstMatching_find)
  show "map name (Object_values PLATFORMS)
       = [YouTube, TikTok, Instagram, Twitter, Facebook, LinkedIn, Pinterest]"
    by (simp add: Object_values_def PLATFORMS_def)
  show "(getPlatform u = None) = (\<forall>p\<in>set (Object_values PLATFORMS). \<not> test (regex p) u)"
    unfolding f by (auto simp: find_None_iff)
  show "(getPlatform u = Some p) =
       (\<exists>i<length (Object_values PLATFORMS). Object_values PLATFORMS ! i = p \<and> test (regex p) u
          \<and> (\<forall>j<i. \<not> test (regex (Object_values PLATFORMS ! j)) u))"
    unfolding f find_Some_iff by auto
qed

theorem detector_witness:
  "map_option name (getPlatform ''https://www.youtube.com/watch?v=abc12345678'') = Some YouTube
   \<and> map_option name (getPlatform ''https://youtu.be/abc12345678'') = Some YouTube
   \<and> map_option name (getPlatform ''see youtube.com/x and tiktok.com/12'') = Some YouTube
   \<and> test (regex tiktokPlatform) ''see youtube.com/x and tiktok.com/12''
   \<and> map_option name (getPlatform ''https://www.tiktok.com/@ann/video/123'') = Some TikTok
   \<and> getPlatform ''https://example.com/foo'' = None"
proof -
  have a: "map_option name (List.find (\<lambda>p. test (regex p) ''https://www.youtube.com/watch?v=abc12345678'')
             (Object_values PLATFORMS)) = Some YouTube"
    by code_simp
  have b: "map_option name (List.find (\<lambda>p. test (regex p) ''https://youtu.be/abc12345678'')
             (Object_values PLATFORMS)) = Some YouTube"
    by code_simp
  have c: "map_option name (List.find (\<lambda>p. test (regex p) ''see youtube.com/x and tiktok.com/12'')
             (Object_values PLATFORMS)) = Some YouTube"
    by code_simp
  have d: "test (regex tiktokPlatform) ''see youtube.com/x and tiktok.com/12''"
    by code_simp
  have e: "map_option name (List.find (\<lambda>p. test (regex p) ''https://www.tiktok.com/@ann/video/123'')
             (Object_values PLATFORMS)) = Some TikTok"
    by code_simp
  have f: "List.find (\<lambda>p. test (regex p) ''https://example.com/foo'') (Object_values PLATFORMS) = None"
    by code_simp
  note claim = detector_returns_first_match [THEN conjunct1]
  from a b c d e f show ?thesis by (simp only: claim simp_thms)
qed

text \<open>
  C1, as amended.  \<open>handleFetch\<close> first checks that the address is not empty.  For every address
  that is not empty and matches no pattern of the table it sets the error for an unsupported
  platform, clears the record and the summary, and makes no network request: the log is
  unchanged.  For the empty address it sets the error that asks for a URL, without running
  the detector and without a network request.
\<close>

theorem unmatched_address_is_unsupported_without_request:
  "(address st \<noteq> [] \<and> getPlatform (address st) = None
      \<longrightarrow> handleFetch fetchMediaInfo generateSummary st lg
           = (st\<lparr>failure := Some unsupportedText, mediaInfo := None, aiSummary := None,
                 isLoading := False\<rparr>, lg))
   \<and> (address st = []
      \<longrightarrow> handleFetch fetchMediaInfo generateSummary st lg
           = (st\<lparr>failure := Some ''Please enter a URL.''\<rparr>, lg))"
  by (simp add: handleFetch_def)

theorem unmatched_address_witness:
  "address (idle ''https://example.com/foo'') \<noteq> []
   \<and> getPlatform (address (idle ''https://example.com/foo'')) = None
   \<and> handleFetch noMedia noSummary (idle ''https://example.com/foo'') []
       = ((idle ''https://example.com/foo'')\<lparr>failure := Some unsupportedText, mediaInfo := None,
            aiSummary := None, isLoading := False\<rparr>, [])
   \<and> handleFetch noMedia noSummary (idle []) [] = ((idle [])\<lparr>failure := Some ''Please enter a URL.''\<rparr>, [])"
proof -
  have a: "address (idle ''https://example.com/foo'') \<noteq> []" by (simp add: idle_def)
  have b: "getPlatform (address (idle ''https://example.com/foo'')) = None" by code_simp
  have c: "address (idle []) = []" by (simp add: idle_def)
  note claim = unmatched_address_is_unsupported_without_request
  from claim [of "idle ''https://example.com/foo''" noMedia noSummary "[]"] a b
  have d: "handleFetch noMedia noSummary (idle ''https://example.com/foo'') []
       = ((idle ''https://example.com/foo'')\<lparr>failure := Some unsupportedText, mediaInfo := None,
            aiSummary := None, isLoading := False\<rparr>, [])"
    by blast
  from claim [of "idle []" noMedia noSummary "[]"] c
  have e: "handleFetch noMedia noSummary (idle []) [] = ((idle [])\<lparr>failure := Some ''Please enter a URL.''\<rparr>, [])"
    by blast
  from a b d e show ?thesis by blast
qed

text \<open>
  C1 as stated fails at the empty address: it matches no pattern, and the error set is the one
  that asks for a URL, not the one for an unsupported platform.
\<close>

theorem empty_address_is_not_reported_unsupported:
  "getPlatform [] = None
   \<and> failure (fst (handleFetch noMedia noSummary (idle []) [])) = Some ''Please enter a URL.''
   \<and> failure (fst (handleFetch noMedia noSummary (idle []) [])) \<noteq> Some unsupportedText
   \<and> snd (handleFetch noMedia noSummary (idle []) []) = []"
  by code_simp

section \<open>Records returned by the resolvers\<close>

lemma youtubeInfo_a_ok:
  "youtubeInfo_a v d = Inr info \<Longrightarrow> platform info = YouTube \<and> downloadOptions info \<noteq> []"
  by (auto simp: youtubeInfo_a_def rank_a_def js_sort_eq_Nil split: if_splits sum.splits)

lemma fetchYouTubeInfo_a_ok:
  "fetchYouTubeInfo_a net u lg = (Inr info, lg') \<Longrightarrow> platform info = YouTube \<and> downloadOptions info \<noteq> []"
  by (auto simp: fetchYouTubeInfo_a_def split: option.splits prod.splits dest: youtubeInfo_a_ok)

lemma tiktokInfo_a_ok:
  "tiktokInfo_a u j = Inr info \<Longrightarrow> platform info = TikTok \<and> downloadOptions info \<noteq> []"
  by (auto simp: tiktokInfo_a_def split: option.splits if_splits sum.splits)

lemma fetchTikTokInfo_a_ok:
  "fetchTikTokInfo_a net u lg = (Inr info, lg') \<Longrightarrow> platform info = TikTok \<and> downloadOptions info \<noteq> []"
  by (auto simp: fetchTikTokInfo_a_def split: sum.splits dest: tiktokInfo_a_ok)

lemma twitterInfo_a_ok:
  "twitterInfo_a u j = Inr info \<Longrightarrow> platform info = Twitter \<and> downloadOptions info \<noteq> []"
  by (auto simp: twitterInfo_a_def split: option.splits if_splits sum.splits)

lemma fetchTwitterInfo_a_ok:
  "fetchTwitterInfo_a net u lg = (Inr info, lg') \<Longrightarrow> platform info = Twitter \<and> downloadOptions info \<noteq> []"
  by (auto simp: fetchTwitterInfo_a_def split: sum.splits dest: twitterInfo_a_ok)

lemma instagramInfo_ok:
  "instagramInfo u j = Inr info \<Longrightarrow> platform info = Instagram \<and> downloadOptions info \<noteq> []"
  by (auto simp: instagramInfo_def split: option.splits if_splits)

lemma fetchInstagramInfo_ok:
  "fetchInstagramInfo net u lg = (Inr info, lg') \<Longrightarrow> platform info = Instagram \<and> downloadOptions info \<noteq> []"
  by (auto simp: fetchInstagramInfo_def split: sum.splits dest: instagramInfo_ok)

lemma facebookInfo_ok:
  "facebookInfo u j = Inr info \<Longrightarrow> platform info = Facebook \<and> downloadOptions info \<noteq> []"
  by (auto simp: facebookInfo_def split: option.splits if_splits)

lemma fetchFacebookInfo_ok:
  "fetchFacebookInfo net u lg = (Inr info, lg') \<Longrightarrow> platform info = Facebook \<and> downloadOptions info \<noteq> []"
  by (auto simp: fetchFacebookInfo_def split: sum.splits dest: facebookInfo_ok)

lemma pinterestInfo_ok:
  "pinterestInfo u j = Inr info \<Longrightarrow> platform info = Pinterest \<and> downloadOptions info \<noteq> []"
  by (auto simp: pinterestInfo_def split: option.splits if_splits)

lemma fetchPinterestInfo_ok:
  "fetchPinterestInfo net u lg = (Inr info, lg') \<Longrightarrow> platform info = Pinterest \<and> downloadOptions info \<noteq> []"
  by (auto simp: fetchPinterestInfo_def split: sum.splits dest: pinterestInfo_ok)

lemma dispatch_a_ok:
  "dispatch_a w u n lg = (Inr info, lg') \<Longrightarrow> platform info = n \<and> downloadOptions info \<noteq> []"
  by (cases n)
    (auto simp: dispatch_a_def
      dest: fetchYouTubeInfo_a_ok fetchTikTokInfo_a_ok fetchTwitterInfo_a_ok fetchInstagramInfo_ok
        fetchFacebookInfo_ok fetchPinterestInfo_ok)

lemma fetchMediaInfo_a_ok:
  "fetchMediaInfo_a w u p lg = (Inr info, lg') \<Longrightarrow> platform info = name p \<and> downloadOptions info \<noteq> []"
  by (auto simp: fetchMediaInfo_a_def split: prod.splits sum.splits dest: dispatch_a_ok)

lemma youtubeInfo_b_ok:
  "youtubeInfo_b v j = Inr info \<Longrightarrow> platform info = YouTube \<and> downloadOptions info \<noteq> []"
  by (auto simp: youtubeInfo_b_def rank_b_def js_sort_eq_Nil split: option.splits if_splits sum.splits)

lemma fetchYouTubeInfo_b_ok:
  "fetchYouTubeInfo_b net u lg = (Inr info, lg') \<Longrightarrow> platform info = YouTube \<and> downloadOptions info \<noteq> []"
  by (auto simp: fetchYouTubeInfo_b_def split: option.splits prod.splits sum.splits dest: youtubeInfo_b_ok)

lemma tiktokInfo_b_ok:
  "tiktokInfo_b u j = Inr info \<Longrightarrow> platform info = TikTok \<and> downloadOptions info \<noteq> []"
  by (auto simp: tiktokInfo_b_def split: option.splits if_splits sum.splits)

lemma fetchTikTokInfo_b_ok:
  "fetchTikTokInfo_b net u lg = (Inr info, lg') \<Longrightarrow> platform info = TikTok \<and> downloadOptions info \<noteq> []"
  by (auto simp: fetchTikTokInfo_b_def split: sum.splits dest: tiktokInfo_b_ok)

lemma twitterInfo_b_ok:
  "twitterInfo_b j = Inr info \<Longrightarrow> platform info = Twitter \<and> downloadOptions info \<noteq> []"
  by (auto simp: twitterInfo_b_def split: option.splits if_splits sum.splits)

lemma fetchTwitterInfo_b_ok:
  "fetchTwitterInfo_b net u lg = (Inr info, lg') \<Longrightarrow> platform info = Twitter \<and> downloadOptions info \<noteq> []"
  by (auto simp: fetchTwitterInfo_b_def split: sum.splits dest: twitterInfo_b_ok)

lemma dispatch_b_ok:
  "dispatch_b w u n lg = (Inr info, lg') \<Longrightarrow> platform info = n \<and> downloadOptions info \<noteq> []"
  by (cases n)
    (auto simp: dispatch_b_def dest: fetchYouTubeInfo_b_ok fetchTikTokInfo_b_ok fetchTwitterInfo_b_ok)

lemma fetchMediaInfo_b_ok:
  "fetchMediaInfo_b w u p lg = (Inr info, lg') \<Longrightarrow> platform info = name p \<and> downloadOptions info \<noteq> []"
  by (auto simp: fetchMediaInfo_b_def split: prod.splits sum.splits dest: dispatch_b_ok)





lemma civil_epoch: "civil 0 = (1970, 1, 1)"
proof -
  have "yearOfEra 135080 = 369" by (simp add: yearOfEra_def)
  moreover have "dayOfYear 135080 369 = 306" by (simp add: dayOfYear_def)
  moreover have "monthIndex 306 = 10" by (simp add: monthIndex_def)
  moreover have "dayOfMonth 306 10 = 1" by (simp add: dayOfMonth_def)
  moreover have "monthOf 10 = 1" by (simp add: monthOf_def)
  ultimately show ?thesis by (simp add: civil_def)
qed

lemma toISOString_epoch: "toISOString 0 = Inr ''1970-01-01T00:00:00.000Z''"
proof -
  have "showNat 1970 = ''1970''" by code_simp
  moreover have "showNat 0 = ''0''" by code_simp
  moreover have "showNat 1 = ''1''" by code_simp
  ultimately show ?thesis by (simp add: toISOString_def civil_epoch pad2_def padTo_def numeral_2_eq_2)
qed

lemma clock_epoch: "clock 0 14 5 = Inr ''00:00''"
  by (simp add: clock_def toISOString_epoch substr_def)

lemma tiktokPlatform_name: "name tiktokPlatform = TikTok"
  by (simp add: tiktokPlatform_def PLATFORMS_def)

lemma tiktok_sample_a:
  "fetchMediaInfo_a tiktokWorld tiktokAddress tiktokPlatform [] = (Inr tiktokRecord, [tiktokApi tiktokAddress])"
  by (simp add: fetchMediaInfo_a_def dispatch_a_def tiktokPlatform_name fetchTikTokInfo_a_def fetchJson_def
      tiktokWorld_def offline_def json_def tiktokInfo_a_def tiktokOptions_a_def musicOption_def
      orElse_def truthy_def sizeText_def truthyN_def orText_def authorNickname_def tiktokRecord_def)

lemma tiktok_sample_b:
  "fetchMediaInfo_b tiktokWorld tiktokAddress tiktokPlatform [] = (Inr tiktokRecord, [tiktokApi tiktokAddress])"
  by (simp add: fetchMediaInfo_b_def dispatch_b_def tiktokPlatform_name fetchTikTokInfo_b_def fetchJson_def
      tiktokWorld_def offline_def json_def tiktokInfo_b_def tiktokOptions_b_def musicOption_def
      nullish_def truthy_def sizeText_def truthyN_def orZero_def clock_epoch orText_def authorNickname_def
      tiktokRecord_def)


text \<open>
  C10.  A record returned by \<open>fetchMediaInfo\<close> carries the name of the platform it was called
  with: the \<open>switch\<close> selects the resolver by that name and every resolver writes its own name
  into the record.  This holds for the two drafts of the download service that resolve on
  their own.
\<close>

theorem record_carries_dispatched_platform:
  "(fetchMediaInfo_a w u p lg = (Inr info, lg') \<longrightarrow> platform info = name p)
   \<and> (fetchMediaInfo_b w u p lg = (Inr info, lg') \<longrightarrow> platform info = name p)"
  using fetchMediaInfo_a_ok [of w u p lg info lg'] fetchMediaInfo_b_ok [of w u p lg info lg']
  by blast

theorem record_carries_dispatched_platform_witness:
  "fetchMediaInfo_a tiktokWorld tiktokAddress tiktokPlatform [] = (Inr tiktokRecord, [tiktokApi tiktokAddress])
   \<and> fetchMediaInfo_b tiktokWorld tiktokAddress tiktokPlatform [] = (Inr tiktokRecord, [tiktokApi tiktokAddress])
   \<and> platform tiktokRecord = name tiktokPlatform
   \<and> name tiktokPlatform = TikTok"
proof -
  note claim = record_carries_dispatched_platform
    [of tiktokWorld tiktokAddress tiktokPlatform "[]" tiktokRecord "[tiktokApi tiktokAddress]"]
  have "platform tiktokRecord = name tiktokPlatform"
    using claim tiktok_sample_a by blast
  moreover have "name tiktokPlatform = TikTok" by (rule tiktokPlatform_name)
  ultimately show ?thesis using tiktok_sample_a tiktok_sample_b by blast
qed






text \<open>The backend has no check of this kind: without formats its list of options is empty.\<close>

lemma backend_may_answer_no_options: "serverOptions [] = []"
  by code_simp

section \<open>Sizes\<close>

lemma showNat_digit: "t < 10 \<Longrightarrow> showNat t = [digitChar t]"
  by (simp add: showNat.simps)

lemma ulp_exact: "n < 2 ^ 53 \<Longrightarrow> ulp n = 1"
  by (simp add: ulp.simps)

lemma toNumber_exact: "n < 2 ^ 53 \<Longrightarrow> toNumber n = Some n"
proof -
  assume n: "n < 2 ^ 53"
  have "(2::nat) ^ 53 \<le> 2 ^ 1024" by (rule power_increasing) simp_all
  with n have "n < 2 ^ 1024" by (rule less_le_trans)
  moreover from n have "nearest n = n" by (simp add: nearest_def ulp_exact)
  ultimately show ?thesis by (simp add: toNumber_def)
qed

lemma megabytes_exact:
  assumes "n < 2 ^ 53" and "0 < f"
  shows "megabytes f n
    = showNat ((2 * n * 10 ^ f + 1048576) div 2097152 div 10 ^ f) @ ''.''
      @ padTo f (showNat ((2 * n * 10 ^ f + 1048576) div 2097152 mod 10 ^ f)) @ '' MB''"
  using assms by (simp add: megabytes_def toNumber_exact toFixed_def Let_def)

lemma megabytes_one_decimal:
  assumes "n < 2 ^ 53"
  shows "\<exists>w t. t < 10 \<and> 2 * \<bar>int (10 * w + t) * 1048576 - 10 * int n\<bar> \<le> 1048576
      \<and> megabytes 1 n = showNat w @ ''.'' @ [digitChar t] @ '' MB''"
proof -
  define N where "N = (20 * n + 1048576) div 2097152"
  have t: "N mod 10 < 10" by simp
  have shape: "megabytes 1 n = showNat (N div 10) @ ''.'' @ [digitChar (N mod 10)] @ '' MB''"
    using assms by (simp add: megabytes_exact N_def padTo_def showNat_digit)
  define r where "r = (20 * n + 1048576) mod 2097152"
  have "N * 2097152 + r = 20 * n + 1048576"
    unfolding N_def r_def by (rule div_mult_mod_eq)
  then have "int (N * 2097152 + r) = int (20 * n + 1048576)" by simp
  then have e: "int N * 2097152 + int r = 20 * int n + 1048576" by simp
  have "r < 2097152" unfolding r_def by simp
  then have "int r < 2097152" and "0 \<le> int r" by simp_all
  moreover from e have "2 * (int N * 1048576 - 10 * int n) = 1048576 - int r" by simp
  ultimately have "2 * \<bar>int N * 1048576 - 10 * int n\<bar> \<le> 1048576"
    by (simp add: abs_le_iff)
  then have "2 * \<bar>int (10 * (N div 10) + N mod 10) * 1048576 - 10 * int n\<bar> \<le> 1048576" by simp
  with t shape show ?thesis by blast
qed

lemma megabytes_two_decimals:
  assumes "n < 2 ^ 53"
  shows "\<exists>w h. h < 100 \<and> 2 * \<bar>int (100 * w + h) * 1048576 - 100 * int n\<bar> \<le> 1048576
      \<and> megabytes 2 n = showNat w @ ''.'' @ padTo 2 (showNat h) @ '' MB''"
proof -
  define N where "N = (200 * n + 1048576) div 2097152"
  have h: "N mod 100 < 100" by simp
  have shape: "megabytes 2 n = showNat (N div 100) @ ''.'' @ padTo 2 (showNat (N mod 100)) @ '' MB''"
    using assms by (simp add: megabytes_exact N_def)
  define r where "r = (200 * n + 1048576) mod 2097152"
  have "N * 2097152 + r = 200 * n + 1048576"
    unfolding N_def r_def by (rule div_mult_mod_eq)
  then have "int (N * 2097152 + r) = int (200 * n + 1048576)" by simp
  then have e: "int N * 2097152 + int r = 200 * int n + 1048576" by simp
  have "r < 2097152" unfolding r_def by simp
  then have "int r < 2097152" and "0 \<le> int r" by simp_all
  moreover from e have "2 * (int N * 1048576 - 100 * int n) = 1048576 - int r" by simp
  ultimately have "2 * \<bar>int N * 1048576 - 100 * int n\<bar> \<le> 1048576"
    by (simp add: abs_le_iff)
  then have "2 * \<bar>int (100 * (N div 100) + N mod 100) * 1048576 - 100 * int n\<bar> \<le> 1048576" by simp
  with h shape show ?thesis by blast
qed

lemma five_mebibytes: "megabytes 1 5242880 = ''5.0 MB'' \<and> megabytes 2 5242880 = ''5.00 MB''"
proof -
  have "showNat 5 = ''5''" by code_simp
  moreover have "showNat 0 = ''0''" by code_simp
  ultimately show ?thesis by (simp add: megabytes_exact padTo_def)
qed

lemma sizes_first_draft:
  assumes "s_contentLength s = Some n" and "0 < n"
  shows "dl_size (videoOption_a s) = Some (megabytes 1 n)
     \<and> dl_size (audioOption_a s) = Some (megabytes 1 n)"
  using assms by (simp add: videoOption_a_def audioOption_a_def sizeText_def truthyN_def orZero_def)

lemma sizes_second_draft:
  assumes "s_contentLength s = Some n" and "0 < n"
  shows "dl_size (videoOption_b (videoPick s)) = Some (megabytes 2 n)
     \<and> dl_size (audioOption_b (audioPick s)) = Some (megabytes 2 n)"
  using assms
  by (simp add: videoOption_b_def audioOption_b_def videoPick_def audioPick_def number_of_def
      sizeText_def truthyN_def orZero_def)

lemma fiveMiB_sizes:
  "dl_size (videoOption_a fiveMiB) = Some ''5.0 MB''
   \<and> dl_size (videoOption_b (videoPick fiveMiB)) = Some ''5.00 MB''"
proof -
  have n: "s_contentLength fiveMiB = Some 5242880" by (simp add: fiveMiB_def)
  have "dl_size (videoOption_a fiveMiB) = Some (megabytes 1 5242880)"
    by (rule sizes_first_draft [OF n, THEN conjunct1]) simp
  moreover have "dl_size (videoOption_b (videoPick fiveMiB)) = Some (megabytes 2 5242880)"
    by (rule sizes_second_draft [OF n, THEN conjunct1]) simp
  ultimately show ?thesis
    by (simp only: five_mebibytes [THEN conjunct1] five_mebibytes [THEN conjunct2] simp_thms)
qed

lemma sizes_absent:
  assumes "s_contentLength s = None"
  shows "dl_size (videoOption_a s) = None \<and> dl_size (audioOption_a s) = None
     \<and> dl_size (videoOption_b (videoPick s)) = None \<and> dl_size (audioOption_b (audioPick s)) = None"
  using assms
  by (simp add: videoOption_a_def audioOption_a_def videoOption_b_def audioOption_b_def videoPick_def
      audioPick_def number_of_def sizeText_def truthyN_def)

text \<open>
  C9, as amended.  An option whose byte count is present, not zero and below \<open>2^53\<close> gets a size
  text \<open><value> MB\<close>, the count divided by \<open>1024 * 1024\<close> and rounded to the nearest value with
  one decimal in the first draft of the download service and with two decimals in the second
  draft; 5,242,880 bytes give \<open>5.0 MB\<close> in the first and \<open>5.00 MB\<close> in the second.  An option
  whose byte count is absent gets no size.
\<close>

theorem size_is_rounded_megabytes_or_absent:
  "(s_contentLength s = Some n \<and> 0 < n \<and> n < 2 ^ 53 \<longrightarrow>
      (\<exists>w t. t < 10 \<and> 2 * \<bar>int (10 * w + t) * 1048576 - 10 * int n\<bar> \<le> 1048576
         \<and> dl_size (videoOption_a s) = Some (showNat w @ ''.'' @ [digitChar t] @ '' MB'')
         \<and> dl_size (audioOption_a s) = Some (showNat w @ ''.'' @ [digitChar t] @ '' MB'')))
   \<and> (s_contentLength s = Some n \<and> 0 < n \<and> n < 2 ^ 53 \<longrightarrow>
      (\<exists>w h. h < 100 \<and> 2 * \<bar>int (100 * w + h) * 1048576 - 100 * int n\<bar> \<le> 1048576
         \<and> dl_size (videoOption_b (videoPick s)) = Some (showNat w @ ''.'' @ padTo 2 (showNat h) @ '' MB'')
         \<and> dl_size (audioOption_b (audioPick s)) = Some (showNat w @ ''.'' @ padTo 2 (showNat h) @ '' MB'')))
   \<and> (s_contentLength s = None \<longrightarrow>
        dl_size (videoOption_a s) = None \<and> dl_size (audioOption_a s) = None
        \<and> dl_size (videoOption_b (videoPick s)) = None \<and> dl_size (audioOption_b (audioPick s)) = None)
   \<and> dl_size (videoOption_a fiveMiB) = Some ''5.0 MB''
   \<and> dl_size (videoOption_b (videoPick fiveMiB)) = Some ''5.00 MB''"
proof (intro conjI impI)
  assume a: "s_contentLength s = Some n \<and> 0 < n \<and> n < 2 ^ 53"
  then obtain w t where "t < 10"
    and "2 * \<bar>int (10 * w + t) * 1048576 - 10 * int n\<bar> \<le> 1048576"
    and "megabytes 1 n = showNat w @ ''.'' @ [digitChar t] @ '' MB''"
    using megabytes_one_decimal [of n] by blast
  moreover from a have "dl_size (videoOption_a s) = Some (megabytes 1 n)
      \<and> dl_size (audioOption_a s) = Some (megabytes 1 n)"
    by (intro sizes_first_draft) simp_all
  ultimately show "\<exists>w t. t < 10 \<and> 2 * \<bar>int (10 * w + t) * 1048576 - 10 * int n\<bar> \<le> 1048576
         \<and> dl_size (videoOption_a s) = Some (showNat w @ ''.'' @ [digitChar t] @ '' MB'')
         \<and> dl_size (audioOption_a s) = Some (showNat w @ ''.'' @ [digitChar t] @ '' MB'')"
    by auto
next
  assume a: "s_contentLength s = Some n \<and> 0 < n \<and> n < 2 ^ 53"
  then obtain w h where "h < 100"
    and "2 * \<bar>int (100 * w + h) * 1048576 - 100 * int n\<bar> \<le> 1048576"
    and "megabytes 2 n = showNat w @ ''.'' @ padTo 2 (showNat h) @ '' MB''"
    using megabytes_two_decimals [of n] by blast
  moreover from a have "dl_size (videoOption_b (videoPick s)) = Some (megabytes 2 n)
      \<and> dl_size (audioOption_b (audioPick s)) = Some (megabytes 2 n)"
    by (intro sizes_second_draft) simp_all
  ultimately show "\<exists>w h. h < 100 \<and> 2 * \<bar>int (100 * w + h) * 1048576 - 100 * int n\<bar> \<le> 1048576
         \<and> dl_size (videoOption_b (videoPick s)) = Some (showNat w @ ''.'' @ padTo 2 (showNat h) @ '' MB'')
         \<and> dl_size (audioOption_b (audioPick s)) = Some (showNat w @ ''.'' @ padTo 2 (showNat h) @ '' MB'')"
    by auto
next
  assume a: "s_contentLength s = None"
  from sizes_absent [OF a] show "dl_size (videoOption_a s) = None" by simp
  from sizes_absent [OF a] show "dl_size (audioOption_a s) = None" by simp
  from sizes_absent [OF a] show "dl_size (videoOption_b (videoPick s)) = None" by simp
  from sizes_absent [OF a] show "dl_size (audioOption_b (audioPick s)) = None" by simp
next
  show "dl_size (videoOption_a fiveMiB) = Some ''5.0 MB''" by (rule fiveMiB_sizes [THEN conjunct1])
  show "dl_size (videoOption_b (videoPick fiveMiB)) = Some ''5.00 MB''"
    by (rule fiveMiB_sizes [THEN conjunct2])
qed

theorem size_witness:
  "(\<exists>w t. t < 10 \<and> 2 * \<bar>int (10 * w + t) * 1048576 - 10 * int 5242880\<bar> \<le> 1048576
       \<and> dl_size (videoOption_a fiveMiB) = Some (showNat w @ ''.'' @ [digitChar t] @ '' MB'')
       \<and> dl_size (audioOption_a fiveMiB) = Some (showNat w @ ''.'' @ [digitChar t] @ '' MB''))
   \<and> (\<exists>w h. h < 100 \<and> 2 * \<bar>int (100 * w + h) * 1048576 - 100 * int 5242880\<bar> \<le> 1048576
       \<and> dl_size (videoOption_b (videoPick fiveMiB)) = Some (showNat w @ ''.'' @ padTo 2 (showNat h) @ '' MB'')
       \<and> dl_size (audioOption_b (audioPick fiveMiB)) = Some (showNat w @ ''.'' @ padTo 2 (showNat h) @ '' MB''))
   \<and> dl_size (videoOption_a (mp4Stream ''720p'' ''https://cdn/720'')) = None
   \<and> dl_size (audioOption_b (audioPick (mp4Stream ''720p'' ''https://cdn/720''))) = None"
proof -
  note claim = size_is_rounded_megabytes_or_absent
  have present: "s_contentLength fiveMiB = Some 5242880 \<and> 0 < (5242880::nat) \<and> (5242880::nat) < 2 ^ 53"
    by (simp add: fiveMiB_def)
  have absent: "s_contentLength (mp4Stream ''720p'' ''https://cdn/720'') = None"
    by (simp add: mp4Stream_def noStream_def)
  note one = claim [where s = fiveMiB and n = 5242880, THEN conjunct1, THEN mp, OF present]
  note two = claim [where s = fiveMiB and n = 5242880, THEN conjunct2, THEN conjunct1, THEN mp, OF present]
  note none = claim [where s = "mp4Stream ''720p'' ''https://cdn/720''", THEN conjunct2, THEN conjunct2,
      THEN conjunct1, THEN mp, OF absent]
  from none have a: "dl_size (videoOption_a (mp4Stream ''720p'' ''https://cdn/720'')) = None"
    and b: "dl_size (audioOption_b (audioPick (mp4Stream ''720p'' ''https://cdn/720''))) = None"
    by blast+
  from one two a b show ?thesis by (intro conjI)
qed

text \<open>
  C9 as stated fails in the second draft: 5,242,880 bytes are rendered with two decimals.
\<close>

theorem second_draft_renders_two_decimals:
  "dl_size (videoOption_b (videoPick fiveMiB)) = Some ''5.00 MB''
   \<and> dl_size (videoOption_b (videoPick fiveMiB)) \<noteq> Some ''5.0 MB''"
proof -
  have "dl_size (videoOption_b (videoPick fiveMiB)) = Some ''5.00 MB''"
    by (rule fiveMiB_sizes [THEN conjunct2])
  then show ?thesis by simp
qed

lemma digitChars:
  "digitChar 0 = CHR ''0''" "digitChar 1 = CHR ''1''" "digitChar 2 = CHR ''2''"
  "digitChar 3 = CHR ''3''" "digitChar 4 = CHR ''4''" "digitChar 5 = CHR ''5''"
  "digitChar 6 = CHR ''6''" "digitChar 7 = CHR ''7''" "digitChar 8 = CHR ''8''"
  "digitChar 9 = CHR ''9''"
  by code_simp+

lemma showNat_more: "10 \<le> n \<Longrightarrow> showNat n = showNat (n div 10) @ [digitChar (n mod 10)]"
  by (subst showNat.simps) simp

lemma ulp_more: "2 ^ 53 \<le> n \<Longrightarrow> ulp n = 2 * ulp (n div 2)"
  by (subst ulp.simps) simp

lemma normal_done: "s mod 10 \<noteq> 0 \<Longrightarrow> normal s e = (s, e)"
  by (subst normal.simps) simp

lemma toNumber_numeral:
  "toNumber (numeral n) =
     (let u = ulp (numeral n); q = numeral n div u; r = numeral n mod u;
          v = (if 2 * r < u \<or> (2 * r = u \<and> even q) then q * u else (q + 1) * u)
      in if v < 2 ^ 1024 then Some v else None)"
  by (simp add: toNumber_def nearest_def Let_def)

text \<open>
  Three samples beyond \<open>2^53\<close>.  A count of 9,007,199,255,003,135 bytes is read as the even
  neighbour 9,007,199,255,003,136, which is 8,589,934,592.25 MB and is rounded up.  A count of
  \<open>2^90\<close> bytes is \<open>2^70\<close> MB, which is above \<open>10^21\<close> and is written with an exponent.  A count of
  \<open>2^1024\<close> bytes is read as \<open>Infinity\<close>.
\<close>

lemma rounded_on_reading: "megabytes 1 9007199255003135 = ''8589934592.3 MB''"
proof -
  have "ulp 9007199255003135 = 2" by (simp add: ulp_more ulp_exact)
  then have "nearest 9007199255003135 = 9007199255003136" by (simp add: nearest_def)
  then have "toNumber 9007199255003135 = Some 9007199255003136" by (simp add: toNumber_def)
  then show ?thesis
    by (simp add: megabytes_def toFixed_def padTo_def showNat_more showNat_digit digitChars)
qed

lemma length_two_to_70: "length (showNat 1180591620717411303424) = 22"
  by (simp add: showNat_more showNat_digit)

lemma too_short_1_to_4:
  "digitsAt 1180591620717411303424 1 = None" "digitsAt 1180591620717411303424 2 = None"
  "digitsAt 1180591620717411303424 3 = None" "digitsAt 1180591620717411303424 4 = None"
  by (simp_all add: digitsAt_def length_two_to_70 toNumber_numeral ulp_more ulp_exact Let_def)

lemma too_short_5_to_8:
  "digitsAt 1180591620717411303424 5 = None" "digitsAt 1180591620717411303424 6 = None"
  "digitsAt 1180591620717411303424 7 = None" "digitsAt 1180591620717411303424 8 = None"
  by (simp_all add: digitsAt_def length_two_to_70 toNumber_numeral ulp_more ulp_exact Let_def)

lemma too_short_9_to_12:
  "digitsAt 1180591620717411303424 9 = None" "digitsAt 1180591620717411303424 10 = None"
  "digitsAt 1180591620717411303424 11 = None" "digitsAt 1180591620717411303424 12 = None"
  by (simp_all add: digitsAt_def length_two_to_70 toNumber_numeral ulp_more ulp_exact Let_def)

lemma too_short_13_to_16:
  "digitsAt 1180591620717411303424 13 = None" "digitsAt 1180591620717411303424 14 = None"
  "digitsAt 1180591620717411303424 15 = None" "digitsAt 1180591620717411303424 16 = None"
  by (simp_all add: digitsAt_def length_two_to_70 toNumber_numeral ulp_more ulp_exact Let_def)

lemma seventeen_digits: "digitsAt 1180591620717411303424 17 = Some (11805916207174113, 5)"
  by (simp add: digitsAt_def length_two_to_70 toNumber_numeral ulp_more ulp_exact Let_def)

lemma shortest_two_to_70: "shortest 1180591620717411303424 = (11805916207174113, 5)"
proof -
  have "[1 ..< 18] = [1, 2, 3, 4, 5, 6, 7, 8, 9, 10, 11, 12, 13, 14, 15, 16, 17::nat]"
    by code_simp
  then show ?thesis
    unfolding shortest_def
    by (simp only: List.map_filter_simps too_short_1_to_4 too_short_5_to_8 too_short_9_to_12
        too_short_13_to_16 seventeen_digits option.case list.case)
qed

lemma exponent_from_1e21: "megabytes 1 (2 ^ 90) = ''1.1805916207174113e+21 MB''"
proof -
  have n: "toNumber (2 ^ 90) = Some 1237940039285380274899124224"
    by (simp add: toNumber_numeral ulp_more ulp_exact Let_def)
  have digits: "showNat 11805916207174113 = ''11805916207174113''"
    by (simp add: showNat_more showNat_digit digitChars One_nat_def [symmetric] del: One_nat_def)
  have exponent: "showNat 21 = ''21''"
    by (simp add: showNat_more showNat_digit digitChars One_nat_def [symmetric] del: One_nat_def)
  have "toExponent 1180591620717411303424 = ''1.1805916207174113e+21''"
    by (simp add: toExponent_def shortest_two_to_70 normal_done digits exponent Let_def)
  with n show ?thesis by (simp add: megabytes_def toFixed_def)
qed

lemma infinite_on_reading: "megabytes 1 (2 ^ 1024) = ''Infinity MB''"
proof -
  have "toNumber (2 ^ 1024) = None"
    by (simp add: toNumber_numeral ulp_more ulp_exact Let_def)
  then show ?thesis by (simp add: megabytes_def)
qed

end
